theory Spec2Isabelle
  imports Complex_Main "HOL-Library.Word"
begin

section \<open>Common types\<close>

type_synonym byte = "8 word"

text \<open>
  Go's \<open>int\<close>, 64 bits wide on the platforms the tiler is built for: \<open>*\<close> wraps
  around, and \<open>sint\<close> reads the value.
\<close>

type_synonym go_int = "64 word"

text \<open>
  Go's \<open>error\<close> values that the modelled functions return.  \<open>EOF\<close> is \<open>io.EOF\<close>;
  the others stand for the errors of the operating system, of the LAS header reader,
  of the coordinate converter and of \<open>encoding/json\<close>, and for the one error the tile
  writer creates itself (\<open>LeafError\<close>).
\<close>

datatype error = EOF | OpenError | HeaderError | VLRError | IOError
  | ConvertError | MkdirError | WriteError | MarshalError | LeafError

text \<open>
  A Go call either returns, or the goroutine panics (slice bounds or index out of range,
  integer division by zero), or the process is ended by \<open>log.Fatal\<close>.
\<close>

datatype 'a outcome = Returns 'a | Panics | Exits

text \<open>Sequencing: the first panic or exit ends the computation.\<close>

definition obind :: "'a outcome \<Rightarrow> ('a \<Rightarrow> 'b outcome) \<Rightarrow> 'b outcome" where
  "obind m f = (case m of Returns x \<Rightarrow> f x | Panics \<Rightarrow> Panics | Exits \<Rightarrow> Exits)"

text \<open>
  Go's \<open>float64\<close> is not interpreted: the type \<open>'f\<close> stands for it, and the
  operations the code applies to it are the fields of one record, so that every theorem
  below holds for whatever these operations compute.  \<open>of_int64 i\<close> is the conversion
  \<open>float64(i)\<close>, \<open>Pow\<close> is \<open>math.Pow\<close>, \<open>lit_0_333\<close> is the literal \<open>0.333\<close>,
  \<open>Sprintf_f\<close> is \<open>fmt.Sprintf("%f", x)\<close>, and \<open>float32bits\<close> is the bit pattern
  of the value truncated to \<open>float32\<close>.
\<close>

record 'f float64 =
  of_int64 :: "int \<Rightarrow> 'f"
  fadd :: "'f \<Rightarrow> 'f \<Rightarrow> 'f"
  fsub :: "'f \<Rightarrow> 'f \<Rightarrow> 'f"
  fmul :: "'f \<Rightarrow> 'f \<Rightarrow> 'f"
  fdiv :: "'f \<Rightarrow> 'f \<Rightarrow> 'f"
  Pow :: "'f \<Rightarrow> 'f \<Rightarrow> 'f"
  lit_0_333 :: 'f
  Sprintf_f :: "'f \<Rightarrow> string"
  float32bits :: "'f \<Rightarrow> 32 word"

text \<open>\<open>structs.Coordinate{X, Y, Z}\<close>.\<close>

type_synonym 'f Coordinate = "'f \<times> 'f \<times> 'f"

text \<open>
  A point of the cloud (\<open>octree.OctElement\<close>, built by \<open>octree.NewOctElement\<close>): the
  fields the reader fills and the tile writer reads.
\<close>

record 'f OctElement =
  X :: 'f
  Y :: 'f
  Z :: 'f
  R :: byte
  G :: byte
  B :: byte
  Intensity :: byte
  Classification :: byte

definition NewOctElement ::
  "'f \<Rightarrow> 'f \<Rightarrow> 'f \<Rightarrow> byte \<Rightarrow> byte \<Rightarrow> byte \<Rightarrow> byte \<Rightarrow> byte \<Rightarrow> 'f OctElement" where
  "NewOctElement x y z r g b i c =
     \<lparr>X = x, Y = y, Z = z, R = r, G = g, B = b, Intensity = i, Classification = c\<rparr>"

section \<open>The LAS reader (lasread/tiler\_las\_reader.go)\<close>

text \<open>
  The sources hold a second, older copy of this reader, which stores every point at its
  index in an array of the \<open>LasFile\<close> instead of handing it to a loader and does not
  convert coordinates.  The selection of the two flags, the bulk read and the loop that
  cuts the records into blocks are the same, line by line, in both copies.
\<close>

text \<open>
  The fields of \<open>LasHeader\<close> that the reader uses.  Counts, lengths and offsets are
  Go \<open>int\<close>s filled from unsigned header fields; they are modelled as \<open>nat\<close>.
  The scale factors and offsets are \<open>float64\<close>, kept abstract in the type \<open>'f\<close>.
\<close>

record 'f LasHeader =
  PointFormatID :: nat
  PointRecordLength :: nat
  NumberPoints :: nat
  OffsetToPoints :: nat
  XScaleFactor :: 'f
  YScaleFactor :: 'f
  ZScaleFactor :: 'f
  XOffset :: 'f
  YOffset :: 'f
  ZOffset :: 'f

record 'f LasFile =
  fileName :: string
  fileMode :: string
  Header :: "'f LasHeader"
  usePointIntensity :: bool
  usePointUserdata :: bool

text \<open>\<open>recLengths := [4][4]int{{20, 18, 19, 17}, {28, 26, 27, 25}, {26, 24, 25, 23}, {34, 32, 33, 31}}\<close>\<close>

definition recLengths :: "nat list list" where
  "recLengths = [[20, 18, 19, 17], [28, 26, 27, 25], [26, 24, 25, 23], [34, 32, 33, 31]]"

text \<open>
  The \<open>if\<close>/\<open>else if\<close> chain that selects the two flags.  It has no final \<open>else\<close>:
  when no entry of the row matches, both flags keep their value.  Indexing
  \<open>recLengths\<close> with a format id of 4 or more panics.
\<close>

definition selectFlags :: "'f LasFile \<Rightarrow> 'f LasFile outcome" where
  "selectFlags las =
     (let h = Header las in
      if PointFormatID h \<ge> 4 then Panics
      else
        let row = recLengths ! PointFormatID h in
        if PointRecordLength h = row ! 0 then
          Returns (las\<lparr>usePointIntensity := True, usePointUserdata := True\<rparr>)
        else if PointRecordLength h = row ! 1 then
          Returns (las\<lparr>usePointIntensity := False, usePointUserdata := True\<rparr>)
        else if PointRecordLength h = row ! 2 then
          Returns (las\<lparr>usePointIntensity := True, usePointUserdata := False\<rparr>)
        else if PointRecordLength h = row ! 3 then
          Returns (las\<lparr>usePointIntensity := False, usePointUserdata := False\<rparr>)
        else Returns las)"

text \<open>
  The loop that cuts the index range into blocks, one goroutine per block:
  \<^verbatim>\<open>
  for startingPoint < las.Header.NumberPoints {
      endingPoint := startingPoint + blockSize
      if endingPoint >= las.Header.NumberPoints {
          endingPoint = las.Header.NumberPoints - 1
      }
      go func(pointSt, pointEnd int) {...}(startingPoint, endingPoint)
      startingPoint = endingPoint + 1
  }
  \<close>
  The result lists the pairs \<open>(pointSt, pointEnd)\<close> in the order the goroutines are
  started; a goroutine handles the indices \<open>pointSt \<le> i \<le> pointEnd\<close>.
\<close>

function blocks :: "nat \<Rightarrow> nat \<Rightarrow> nat \<Rightarrow> (nat \<times> nat) list" where
  "blocks numberPoints blockSize startingPoint =
     (if startingPoint < numberPoints then
        (let endingPoint = startingPoint + blockSize;
             endingPoint = (if endingPoint \<ge> numberPoints then numberPoints - 1 else endingPoint)
         in (startingPoint, endingPoint) # blocks numberPoints blockSize (endingPoint + 1))
      else [])"
  by pat_completeness auto
termination
  by (relation "measure (\<lambda>(n, b, s). n - s)") auto

text \<open>The indices \<open>for i := pointSt; i <= pointEnd; i++\<close> of one goroutine.\<close>

definition blockIndices :: "nat \<times> nat \<Rightarrow> nat list" where
  "blockIndices = (\<lambda>(pointSt, pointEnd). [pointSt ..< Suc pointEnd])"

text \<open>
  \<open>blockSize := las.Header.NumberPoints / numCPUs\<close>, then the loop from
  \<open>startingPoint = 0\<close>.  A division by zero panics (\<open>runtime.NumCPU\<close> is at least 1).
\<close>

definition partitionPoints :: "nat \<Rightarrow> nat \<Rightarrow> (nat \<times> nat) list outcome" where
  "partitionPoints numberPoints numCPUs =
     (if numCPUs = 0 then Panics
      else Returns (blocks numberPoints (numberPoints div numCPUs) 0))"

text \<open>
  What the reader takes from outside: \<open>os.Open\<close>, the header and VLR readers of the
  LAS library (\<open>readHeader\<close>, \<open>readVLRs\<close>), the file's \<open>ReadAt\<close>, and
  \<open>runtime.NumCPU\<close>.  \<open>ReadAt n off\<close> is given the length of the buffer and the
  offset and answers with the bytes it stored at the front of the buffer and its error.
\<close>

record 'f las_env =
  Open :: "string \<Rightarrow> error option"
  readHeader :: "error + 'f LasHeader"
  readVLRs :: "error option"
  ReadAt :: "nat \<Rightarrow> nat \<Rightarrow> byte list \<times> error option"
  NumCPU :: nat

text \<open>
  \<open>b := make([]byte, pointsLength)\<close> followed by \<open>las.f.ReadAt(b, offset)\<close>: the buffer
  keeps its length, and holds zeros where nothing was stored.
\<close>

definition readBuffer :: "'f las_env \<Rightarrow> nat \<Rightarrow> nat \<Rightarrow> byte list \<times> error option" where
  "readBuffer env pointsLength off =
     (let (stored, err) = ReadAt env pointsLength off
      in (take pointsLength (stored @ replicate pointsLength 0), err))"

text \<open>
  \<open>binary.LittleEndian.Uint32(b[offset:offset+4])\<close> and the 16-bit one; the slice
  expression panics when it reaches past the buffer.  \<open>b[offset]\<close> panics likewise.
\<close>

definition Uint32 :: "byte list \<Rightarrow> nat \<Rightarrow> nat outcome" where
  "Uint32 b offset =
     (if offset + 4 \<le> length b then
        Returns (unat (b ! offset) + 256 * unat (b ! (offset + 1))
                 + 65536 * unat (b ! (offset + 2)) + 16777216 * unat (b ! (offset + 3)))
      else Panics)"

definition Uint16 :: "byte list \<Rightarrow> nat \<Rightarrow> nat outcome" where
  "Uint16 b offset =
     (if offset + 2 \<le> length b then
        Returns (unat (b ! offset) + 256 * unat (b ! (offset + 1)))
      else Panics)"

definition index :: "byte list \<Rightarrow> nat \<Rightarrow> byte outcome" where
  "index b offset = (if offset < length b then Returns (b ! offset) else Panics)"

text \<open>\<open>int32(u)\<close> of a \<open>uint32\<close>: the two's complement reading.\<close>

definition int32 :: "nat \<Rightarrow> int" where
  "int32 u = sint (word_of_nat u :: 32 word)"

text \<open>\<open>uint8(u / 256)\<close> of a \<open>uint16\<close>: its high byte.\<close>

definition highByte :: "nat \<Rightarrow> byte" where
  "highByte u = word_of_nat (u div 256)"

text \<open>
  The body of the goroutine's loop for the record \<open>i\<close>.  A failed coordinate
  conversion ends the process (\<open>log.Fatal\<close>).
\<close>

definition parseRecord ::
  "'f float64 \<Rightarrow> (nat \<Rightarrow> nat \<Rightarrow> 'f Coordinate \<Rightarrow> error + 'f Coordinate) \<Rightarrow>
   ('f \<Rightarrow> 'f \<Rightarrow> 'f \<Rightarrow> 'f) \<Rightarrow> nat \<Rightarrow> 'f LasFile \<Rightarrow> byte list \<Rightarrow> nat \<Rightarrow> 'f OctElement outcome" where
  "parseRecord ops Convert zCorrection inSrid las b i =
     (let h = Header las;
          offset = i * PointRecordLength h
      in
      obind (Uint32 b offset) (\<lambda>xr.
      let x = fadd ops (fmul ops (of_int64 ops (int32 xr)) (XScaleFactor h)) (XOffset h);
          offset = offset + 4 in
      obind (Uint32 b offset) (\<lambda>yr.
      let y = fadd ops (fmul ops (of_int64 ops (int32 yr)) (YScaleFactor h)) (YOffset h);
          offset = offset + 4 in
      obind (Uint32 b offset) (\<lambda>zr.
      let z = fadd ops (fmul ops (of_int64 ops (int32 zr)) (ZScaleFactor h)) (ZOffset h);
          offset = offset + 4 in
      obind (if usePointIntensity las
             then obind (Uint16 b offset) (\<lambda>v. Returns (highByte v, offset + 2))
             else Returns (0, offset)) (\<lambda>(intensity, offset).
      let offset = offset + 1 in
      obind (index b offset) (\<lambda>classification.
      let offset = offset + 1;
          offset = offset + 1;
          offset = (if usePointUserdata las then offset + 1 else offset);
          offset = offset + 2;
          offset = (if PointFormatID h = 1 \<or> PointFormatID h = 3 then offset + 8 else offset)
      in
      obind (if PointFormatID h = 2 \<or> PointFormatID h = 3
             then obind (Uint16 b offset) (\<lambda>r.
                  obind (Uint16 b (offset + 2)) (\<lambda>g.
                  obind (Uint16 b (offset + 4)) (\<lambda>bl.
                  Returns (highByte r, highByte g, highByte bl))))
             else Returns (0, 0, 0)) (\<lambda>(r, g, bl).
      case Convert inSrid 4326 (x, y, z) of
        Inl e \<Rightarrow> Exits
      | Inr (tx, ty, tz) \<Rightarrow>
          Returns (NewOctElement tx ty (zCorrection tx ty tz) r g bl intensity classification))))))))"

text \<open>\<open>for i := pointSt; i <= pointEnd; i++\<close>: the elements one goroutine adds to the loader.\<close>

fun parseIndices :: "(nat \<Rightarrow> 'e outcome) \<Rightarrow> nat list \<Rightarrow> 'e list outcome" where
  "parseIndices parse [] = Returns []"
| "parseIndices parse (i # is) =
     obind (parse i) (\<lambda>e. obind (parseIndices parse is) (\<lambda>es. Returns (e # es)))"

text \<open>
  All goroutines, in the order they are started.  The result keeps one list per
  goroutine: the order in which the goroutines reach \<open>loader.AddElement\<close> is not
  fixed by the code, and neither is which of two failing goroutines ends the process.
\<close>

fun parseBlocks :: "(nat \<Rightarrow> 'e outcome) \<Rightarrow> (nat \<times> nat) list \<Rightarrow> 'e list list outcome" where
  "parseBlocks parse [] = Returns []"
| "parseBlocks parse (bk # bks) =
     obind (parseIndices parse (blockIndices bk)) (\<lambda>es.
     obind (parseBlocks parse bks) (\<lambda>ess. Returns (es # ess)))"

text \<open>
  \<open>readPointsOctElem\<close>.  The result is the updated \<open>LasFile\<close>, the returned error and
  what the loader received.  The test on the error of \<open>ReadAt\<close> guards an empty body
  (its \<open>return err\<close> is commented out), so the error is dropped; the only \<open>return\<close>
  of the function is \<open>return nil\<close>.  The mutex of the \<open>LasFile\<close> and the final
  \<open>converters.DeallocateProjection\<close> have no part in the result.
\<close>

definition readPointsOctElem ::
  "'f float64 \<Rightarrow> 'f las_env \<Rightarrow> (nat \<Rightarrow> nat \<Rightarrow> 'f Coordinate \<Rightarrow> error + 'f Coordinate) \<Rightarrow>
   ('f \<Rightarrow> 'f \<Rightarrow> 'f \<Rightarrow> 'f) \<Rightarrow> nat \<Rightarrow> 'f LasFile \<Rightarrow>
   ('f LasFile \<times> error option \<times> 'f OctElement list list) outcome" where
  "readPointsOctElem ops env Convert zCorrection inSrid las =
     (let h = Header las;
          pointsLength = NumberPoints h * PointRecordLength h;
          (b, err) = readBuffer env pointsLength (OffsetToPoints h);
          u = (if err \<noteq> None \<and> err \<noteq> Some EOF then () else ())
      in
      obind (selectFlags las) (\<lambda>las.
      obind (partitionPoints (NumberPoints h) (NumCPU env)) (\<lambda>bks.
      obind (parseBlocks (parseRecord ops Convert zCorrection inSrid las b) bks) (\<lambda>elems.
      Returns (las, None, elems)))))"

text \<open>\<open>readForOctree\<close>: open, header, VLRs, then the flags and the points.\<close>

definition readForOctree ::
  "'f float64 \<Rightarrow> 'f las_env \<Rightarrow> (nat \<Rightarrow> nat \<Rightarrow> 'f Coordinate \<Rightarrow> error + 'f Coordinate) \<Rightarrow>
   ('f \<Rightarrow> 'f \<Rightarrow> 'f \<Rightarrow> 'f) \<Rightarrow> nat \<Rightarrow> 'f LasFile \<Rightarrow>
   ('f LasFile \<times> error option \<times> 'f OctElement list list) outcome" where
  "readForOctree ops env Convert zCorrection inSrid las =
     (case Open env (fileName las) of
        Some err \<Rightarrow> Returns (las, Some err, [])
      | None \<Rightarrow>
     (case readHeader env of
        Inl err \<Rightarrow> Returns (las, Some err, [])
      | Inr h \<Rightarrow>
     (let las = las\<lparr>Header := h\<rparr> in
      case readVLRs env of
        Some err \<Rightarrow> Returns (las, Some err, [])
      | None \<Rightarrow>
          if fileMode las \<noteq> ''rh'' then
            obind (selectFlags las) (\<lambda>las.
            obind (readPointsOctElem ops env Convert zCorrection inSrid las) (\<lambda>(las, err, elems).
            case err of
              Some e \<Rightarrow> Returns (las, Some e, elems)
            | None \<Rightarrow> Returns (las, None, elems)))
          else Returns (las, None, []))))"

text \<open>
  \<open>NewLasFileForTiler\<close>: a fresh \<open>LasFile\<close> in mode \<open>"r"\<close> with a zero header and both
  flags false, handed to \<open>readForOctree\<close>; the file and the error are returned.
\<close>

definition zeroHeader :: "'f float64 \<Rightarrow> 'f LasHeader" where
  "zeroHeader ops =
     \<lparr>PointFormatID = 0, PointRecordLength = 0, NumberPoints = 0, OffsetToPoints = 0,
      XScaleFactor = of_int64 ops 0, YScaleFactor = of_int64 ops 0, ZScaleFactor = of_int64 ops 0,
      XOffset = of_int64 ops 0, YOffset = of_int64 ops 0, ZOffset = of_int64 ops 0\<rparr>"

definition newLasFile :: "'f float64 \<Rightarrow> string \<Rightarrow> 'f LasFile" where
  "newLasFile ops name =
     \<lparr>fileName = name, fileMode = ''r'', Header = zeroHeader ops,
      usePointIntensity = False, usePointUserdata = False\<rparr>"

definition NewLasFileForTiler ::
  "'f float64 \<Rightarrow> 'f las_env \<Rightarrow> (nat \<Rightarrow> nat \<Rightarrow> 'f Coordinate \<Rightarrow> error + 'f Coordinate) \<Rightarrow>
   string \<Rightarrow> ('f \<Rightarrow> 'f \<Rightarrow> 'f \<Rightarrow> 'f) \<Rightarrow> nat \<Rightarrow>
   ('f LasFile \<times> error option \<times> 'f OctElement list list) outcome" where
  "NewLasFileForTiler ops env Convert name zCorrection inSrid =
     readForOctree ops env Convert zCorrection inSrid (newLasFile ops name)"

section \<open>The tile writer\<close>

subsection \<open>Data\<close>

text \<open>
  Octree nodes are reached through pointers (\<open>*octree.OctNode\<close>), and a node points
  back to its parent.  A heap maps the address of a node to the node; a pointer is
  \<open>None\<close> (\<open>nil\<close>) or the address of a node.  The bounding box is kept abstract in
  \<open>'b\<close>; its methods \<open>CanContain\<close> and \<open>GetVolume\<close> are taken from outside.
  The counters are Go integers, modelled as \<open>int\<close>.
\<close>

type_synonym addr = nat

record ('f, 'b) OctNode =
  BoundingBox :: 'b
  Children :: "addr option list"
  Items :: "'f OctElement list"
  Parent :: "addr option"
  LocalChildrenCount :: int
  GlobalChildrenCount :: int
  IsLeaf :: bool

type_synonym ('f, 'b) heap = "addr \<Rightarrow> ('f, 'b) OctNode"

record TilerOptions =
  Srid :: nat

record WorkUnit =
  OctNode :: addr
  Opts :: TilerOptions
  BasePath :: string

text \<open>The structures that \<open>createTilesetJson\<close> fills and hands to \<open>json.MarshalIndent\<close>.\<close>

record Content =
  Url :: string

record 'f BoundingVolume =
  Region :: "'f list"

record Asset =
  Version :: string

record 'f Child =
  Child_Content :: Content
  Child_BoundingVolume :: "'f BoundingVolume"
  Child_GeometricError :: 'f
  Child_Refine :: string

record 'f Root =
  Root_Children :: "'f Child list"
  Root_Content :: Content
  Root_BoundingVolume :: "'f BoundingVolume"
  Root_GeometricError :: 'f
  Root_Refine :: string

record 'f Tileset =
  Tileset_Asset :: Asset
  Tileset_GeometricError :: 'f
  Tileset_Root :: "'f Root"

text \<open>
  The file system as far as the writer touches it: the directories, and the files with
  their content.
\<close>

record fs =
  dirs :: "string set"
  files :: "string \<Rightarrow> byte list option"

text \<open>
  What the writer takes from outside: \<open>path.Join\<close>, whether \<open>os.MkdirAll\<close> and
  \<open>ioutil.WriteFile\<close> fail on a path, the coordinate converter, the two methods of the
  bounding box, and \<open>json.MarshalIndent\<close>.
\<close>

record ('f, 'b) writer_env =
  Join :: "string \<Rightarrow> string \<Rightarrow> string"
  MkdirAll :: "string \<Rightarrow> error option"
  WriteFile :: "string \<Rightarrow> error option"
  ConvertToWGS84Cartesian :: "'f Coordinate \<Rightarrow> nat \<Rightarrow> error + 'f Coordinate"
  Convert2DBoundingboxToWGS84Region :: "'b \<Rightarrow> nat \<Rightarrow> error + 'f list"
  CanContain :: "'b \<Rightarrow> 'f OctElement \<Rightarrow> bool"
  GetVolume :: "'b \<Rightarrow> 'f"
  MarshalIndent :: "'f Tileset \<Rightarrow> error + byte list"

subsection \<open>Strings and bytes\<close>

text \<open>\<open>strconv.Itoa\<close>: the decimal digits, with a minus sign for a negative number.\<close>

definition decimalDigit :: "nat \<Rightarrow> char" where
  "decimalDigit d = ''0123456789'' ! d"

function uitoa :: "nat \<Rightarrow> string" where
  "uitoa n = (if n < 10 then [decimalDigit n] else uitoa (n div 10) @ [decimalDigit (n mod 10)])"
  by pat_completeness auto
termination
  by (relation "measure id") auto

definition Itoa :: "int \<Rightarrow> string" where
  "Itoa i = (if i < 0 then CHR ''-'' # uitoa (nat (- i)) else uitoa (nat i))"

text \<open>\<open>[]byte(s)\<close>\<close>

definition bytesOf :: "string \<Rightarrow> byte list" where
  "bytesOf s = map of_char s"

text \<open>
  Modelled from the spec: \<open>utils.ConvertIntToByteArray\<close> and
  \<open>utils.ConvertTruncateFloat64ToFloat32ByteArray\<close> are not part of the sources at hand.
  The layout table of the specification gives every header field 4 bytes as a
  little-endian \<open>u32\<close>, and every position 3 little-endian \<open>f32\<close> values.
\<close>

definition le32 :: "32 word \<Rightarrow> byte list" where
  "le32 w = [ucast w, ucast (drop_bit 8 w), ucast (drop_bit 16 w), ucast (drop_bit 24 w)]"

definition ConvertIntToByteArray :: "int \<Rightarrow> byte list" where
  "ConvertIntToByteArray i = le32 (word_of_int i)"

definition ConvertTruncateFloat64ToFloat32ByteArray :: "'f float64 \<Rightarrow> 'f list \<Rightarrow> byte list" where
  "ConvertTruncateFloat64ToFloat32ByteArray ops coords =
     concat (map (\<lambda>c. le32 (float32bits ops c)) coords)"

subsection \<open>The JSON headers of a tile\<close>

text \<open>
  The text \<open>sb\<close> that \<open>generateFeatureTableJson\<close> builds before it looks at its
  length: \<open>spaceNo\<close> characters \<open>0\<close> follow the first component of \<open>RTC_CENTER\<close>.
  \<open>pointNo\<close> is a Go \<open>int\<close>, and the product \<open>pointNo*12\<close> wraps around as Go's does.
  \<open>spaceNo\<close> is 0 in the call from \<open>writeBinaryPnts\<close> and between 1 and 3 in the
  calls of the function to itself, so it is a \<open>nat\<close>.
\<close>

definition featureTableText :: "'f float64 \<Rightarrow> 'f \<Rightarrow> 'f \<Rightarrow> 'f \<Rightarrow> go_int \<Rightarrow> nat \<Rightarrow> string" where
  "featureTableText ops x y z pointNo spaceNo =
     ''{\"POINTS_LENGTH\":'' @ Itoa (sint pointNo) @ '','' @
     ''\"RTC_CENTER\":['' @ Sprintf_f ops x @ replicate spaceNo CHR ''0'' @
     '','' @ Sprintf_f ops y @ '','' @ Sprintf_f ops z @ ''],'' @
     ''\"POSITION\":'' @ ''{\"byteOffset\":'' @ ''0'' @ ''},'' @
     ''\"RGB\":'' @ ''{\"byteOffset\":'' @ Itoa (sint (pointNo * 12)) @ ''}}''"

text \<open>
  \<open>generateFeatureTableJson\<close> calls itself with \<open>4 - paddingSize\<close> when the length is
  not a multiple of 4.  For an arbitrary \<open>spaceNo\<close> the recursion need not end, so the
  result is an option: \<open>None\<close> when the call does not return.
\<close>

partial_function (option) generateFeatureTableJson ::
  "'f float64 \<Rightarrow> 'f \<Rightarrow> 'f \<Rightarrow> 'f \<Rightarrow> go_int \<Rightarrow> nat \<Rightarrow> string option" where
  "generateFeatureTableJson ops x y z pointNo spaceNo =
     (let sb = featureTableText ops x y z pointNo spaceNo;
          headerByteLength = length (bytesOf sb);
          paddingSize = headerByteLength mod 4
      in if paddingSize \<noteq> 0
         then generateFeatureTableJson ops x y z pointNo (4 - paddingSize)
         else Some sb)"

declare generateFeatureTableJson.simps [code]

text \<open>The text of \<open>generateBatchTableJson\<close>: \<open>spaceNumber\<close> spaces close it.\<close>

definition batchTableText :: "go_int \<Rightarrow> nat \<Rightarrow> string" where
  "batchTableText pointNumber spaceNumber =
     ''{\"INTENSITY\":'' @ ''{\"byteOffset\":'' @ ''0'' @
       '', \"componentType\":\"UNSIGNED_BYTE\", \"type\":\"SCALAR\"},'' @
     ''\"CLASSIFICATION\":'' @ ''{\"byteOffset\":'' @ Itoa (sint pointNumber) @
       '', \"componentType\":\"UNSIGNED_BYTE\", \"type\":\"SCALAR\"}}'' @
     replicate spaceNumber CHR '' ''"

partial_function (option) generateBatchTableJson :: "go_int \<Rightarrow> nat \<Rightarrow> string option" where
  "generateBatchTableJson pointNumber spaceNumber =
     (let sb = batchTableText pointNumber spaceNumber;
          headerByteLength = length (bytesOf sb);
          paddingSize = headerByteLength mod 4
      in if paddingSize \<noteq> 0
         then generateBatchTableJson pointNumber (4 - paddingSize)
         else Some sb)"

declare generateBatchTableJson.simps [code]

subsection \<open>content.pnts\<close>

text \<open>
  \<open>os.Stat\<close> with \<open>os.IsNotExist\<close>, \<open>os.MkdirAll\<close> and \<open>ioutil.WriteFile\<close> on the
  modelled file system.  A failed call leaves the file system as it was.
\<close>

definition IsNotExist :: "fs \<Rightarrow> string \<Rightarrow> bool" where
  "IsNotExist s p = (p \<notin> dirs s \<and> files s p = None)"

definition osMkdirAll :: "('f, 'b) writer_env \<Rightarrow> fs \<Rightarrow> string \<Rightarrow> fs \<times> error option" where
  "osMkdirAll env s p =
     (case MkdirAll env p of
        Some err \<Rightarrow> (s, Some err)
      | None \<Rightarrow> (s\<lparr>dirs := insert p (dirs s)\<rparr>, None))"

definition osWriteFile ::
  "('f, 'b) writer_env \<Rightarrow> fs \<Rightarrow> string \<Rightarrow> byte list \<Rightarrow> fs \<times> error option" where
  "osWriteFile env s p content =
     (case WriteFile env p of
        Some err \<Rightarrow> (s, Some err)
      | None \<Rightarrow> (s\<lparr>files := (files s)(p \<mapsto> content)\<rparr>, None))"

text \<open>
  "Create base folder if it does not exist", the first step of \<open>writeBinaryPnts\<close> and
  of \<open>writeJsonTileset\<close>.
\<close>

definition createBaseFolder ::
  "('f, 'b) writer_env \<Rightarrow> fs \<Rightarrow> string \<Rightarrow> fs \<times> error option" where
  "createBaseFolder env s parentFolder =
     (if IsNotExist s parentFolder then osMkdirAll env s parentFolder else (s, None))"

text \<open>
  The first loop of \<open>writeBinaryPnts\<close>: every item is converted to cartesian
  coordinates; the first failing conversion is returned.  \<open>coords\<close> is modelled as the
  list of the triples \<open>(coords[i*3], coords[i*3+1], coords[i*3+2])\<close>.
\<close>

fun convertItems ::
  "('f, 'b) writer_env \<Rightarrow> nat \<Rightarrow> 'f OctElement list \<Rightarrow> error + 'f Coordinate list" where
  "convertItems env srid [] = Inr []"
| "convertItems env srid (element # rest) =
     (case ConvertToWGS84Cartesian env (X element, Y element, Z element) srid of
        Inl err \<Rightarrow> Inl err
      | Inr outCrd \<Rightarrow>
          (case convertItems env srid rest of
             Inl err \<Rightarrow> Inl err
           | Inr coords \<Rightarrow> Inr (outCrd # coords)))"

definition itemColors :: "'f OctElement list \<Rightarrow> byte list" where
  "itemColors items = concat (map (\<lambda>element. [R element, G element, B element]) items)"

definition itemIntensities :: "'f OctElement list \<Rightarrow> byte list" where
  "itemIntensities items = map Intensity items"

definition itemClassifications :: "'f OctElement list \<Rightarrow> byte list" where
  "itemClassifications items = map Classification items"

text \<open>
  The averages: the sums start at the zero value of \<open>float64\<close> and run over the
  points in order; each is then divided by \<open>float64(pointNo)\<close>.
\<close>

definition averages :: "'f float64 \<Rightarrow> 'f Coordinate list \<Rightarrow> 'f Coordinate" where
  "averages ops coords =
     (let pointNo = of_int64 ops (int (length coords));
          avgX = foldl (\<lambda>a (x, y, z). fadd ops a x) (of_int64 ops 0) coords;
          avgY = foldl (\<lambda>a (x, y, z). fadd ops a y) (of_int64 ops 0) coords;
          avgZ = foldl (\<lambda>a (x, y, z). fadd ops a z) (of_int64 ops 0) coords
      in (fdiv ops avgX pointNo, fdiv ops avgY pointNo, fdiv ops avgZ pointNo))"

text \<open>"Normalizing coordinates relative to average", flattened to \<open>coords\<close>.\<close>

definition normalized :: "'f float64 \<Rightarrow> 'f Coordinate \<Rightarrow> 'f Coordinate list \<Rightarrow> 'f list" where
  "normalized ops avg coords =
     (case avg of (avgX, avgY, avgZ) \<Rightarrow>
        concat (map (\<lambda>(x, y, z). [fsub ops x avgX, fsub ops y avgY, fsub ops z avgZ]) coords))"

text \<open>"Appending binary content to slice": the bytes of the file.\<close>

definition outputByte ::
  "string \<Rightarrow> byte list \<Rightarrow> byte list \<Rightarrow> string \<Rightarrow> byte list \<Rightarrow> byte list \<Rightarrow> byte list" where
  "outputByte featureTableStr positionBytes colors batchTableStr intensities classifications =
     (let featureTableLen = length featureTableStr;
          batchTableLen = length batchTableStr;
          byteLength = 28 + featureTableLen + length positionBytes + length colors
      in bytesOf ''pnts''
         @ ConvertIntToByteArray 1
         @ ConvertIntToByteArray (int byteLength)
         @ ConvertIntToByteArray (int featureTableLen)
         @ ConvertIntToByteArray (int (length positionBytes + length colors))
         @ ConvertIntToByteArray (int batchTableLen)
         @ ConvertIntToByteArray (int (length intensities + length classifications))
         @ bytesOf featureTableStr
         @ positionBytes
         @ colors
         @ bytesOf batchTableStr
         @ intensities
         @ classifications)"

text \<open>
  The content of the file for a list of items: \<open>None\<close> if one of the two JSON
  generators does not return, an error if a conversion fails.  \<open>pointNo\<close> is
  \<open>len(node.Items)\<close> as a Go \<open>int\<close>.
\<close>

definition pntsContent ::
  "'f float64 \<Rightarrow> ('f, 'b) writer_env \<Rightarrow> nat \<Rightarrow> 'f OctElement list \<Rightarrow> (error + byte list) option" where
  "pntsContent ops env srid items =
     (let pointNo = (word_of_nat (length items) :: go_int) in
      case convertItems env srid items of
        Inl err \<Rightarrow> Some (Inl err)
      | Inr coords \<Rightarrow>
          (case averages ops coords of (avgX, avgY, avgZ) \<Rightarrow>
           let positionBytes =
                 ConvertTruncateFloat64ToFloat32ByteArray ops (normalized ops (avgX, avgY, avgZ) coords)
           in
           case generateFeatureTableJson ops avgX avgY avgZ pointNo 0 of
             None \<Rightarrow> None
           | Some featureTableStr \<Rightarrow>
               (case generateBatchTableJson pointNo 0 of
                  None \<Rightarrow> None
                | Some batchTableStr \<Rightarrow>
                    Some (Inr (outputByte featureTableStr positionBytes (itemColors items)
                                 batchTableStr (itemIntensities items) (itemClassifications items))))))"

text \<open>\<open>writeBinaryPnts\<close>: the folder, the content, the file.\<close>

definition writeBinaryPnts ::
  "'f float64 \<Rightarrow> ('f, 'b) writer_env \<Rightarrow> ('f, 'b) heap \<Rightarrow> WorkUnit \<Rightarrow> fs \<Rightarrow> (fs \<times> error option) option" where
  "writeBinaryPnts ops env h workUnit s =
     (let parentFolder = BasePath workUnit;
          node = h (OctNode workUnit)
      in
      case createBaseFolder env s parentFolder of
        (s, Some err) \<Rightarrow> Some (s, Some err)
      | (s, None) \<Rightarrow>
          (let pntsFilePath = Join env parentFolder ''content.pnts'' in
           case pntsContent ops env (Srid (Opts workUnit)) (Items node) of
             None \<Rightarrow> None
           | Some (Inl err) \<Rightarrow> Some (s, Some err)
           | Some (Inr bytes) \<Rightarrow> Some (osWriteFile env s pntsFilePath bytes)))"

subsection \<open>tileset.json\<close>

text \<open>The inner loop of \<open>computeGeometricError\<close> over the items of one ancestor.\<close>

fun countContained :: "('b \<Rightarrow> 'e \<Rightarrow> bool) \<Rightarrow> 'b \<Rightarrow> 'e list \<Rightarrow> int \<Rightarrow> int" where
  "countContained can box [] totalRenderedPoints = totalRenderedPoints"
| "countContained can box (e # es) totalRenderedPoints =
     countContained can box es
       (if can box e then totalRenderedPoints + 1 else totalRenderedPoints)"

text \<open>
  \<open>for parent != nil { ...; parent = parent.Parent }\<close>.  On a heap whose parent
  pointers run in a circle the loop does not end: the result is \<open>None\<close> then.
\<close>

partial_function (option) parentLoop ::
  "('f, 'b) writer_env \<Rightarrow> ('f, 'b) heap \<Rightarrow> 'b \<Rightarrow> addr option \<Rightarrow> int \<Rightarrow> int option" where
  "parentLoop env h box parent totalRenderedPoints =
     (case parent of
        None \<Rightarrow> Some totalRenderedPoints
      | Some p \<Rightarrow>
          parentLoop env h box (Parent (h p))
            (countContained (CanContain env) box (Items (h p)) totalRenderedPoints))"

declare parentLoop.simps [code]

definition computeGeometricError ::
  "'f float64 \<Rightarrow> ('f, 'b) writer_env \<Rightarrow> ('f, 'b) heap \<Rightarrow> addr \<Rightarrow> 'f option" where
  "computeGeometricError ops env h node =
     (let volume = GetVolume env (BoundingBox (h node)) in
      case parentLoop env h (BoundingBox (h node)) (Parent (h node)) (LocalChildrenCount (h node)) of
        None \<Rightarrow> None
      | Some totalRenderedPoints \<Rightarrow>
          (let densityWithAllPoints =
                 Pow ops (fdiv ops volume
                            (of_int64 ops (totalRenderedPoints + GlobalChildrenCount (h node)
                                           - LocalChildrenCount (h node))))
                   (lit_0_333 ops);
               densityWIthOnlyThisTile =
                 Pow ops (fdiv ops volume (of_int64 ops totalRenderedPoints)) (lit_0_333 ops)
           in Some (fsub ops densityWIthOnlyThisTile densityWithAllPoints)))"

text \<open>
  \<open>for i, child := range node.Children\<close>: the entries of \<open>root.Children\<close> for the
  slots from \<open>i\<close> on.  A failing region conversion is returned at once.
\<close>

fun childrenLoop ::
  "'f float64 \<Rightarrow> ('f, 'b) writer_env \<Rightarrow> ('f, 'b) heap \<Rightarrow> TilerOptions \<Rightarrow> nat \<Rightarrow> addr option list \<Rightarrow>
   (error + 'f Child list) option" where
  "childrenLoop ops env h opts i [] = Some (Inr [])"
| "childrenLoop ops env h opts i (None # rest) = childrenLoop ops env h opts (i + 1) rest"
| "childrenLoop ops env h opts i (Some child # rest) =
     (if GlobalChildrenCount (h child) > 0 then
        (let filename = (if IsLeaf (h child) then ''content.pnts'' else ''tileset.json'');
             content = \<lparr>Url = Itoa (int i) @ ''/'' @ filename\<rparr>
         in
         case Convert2DBoundingboxToWGS84Region env (BoundingBox (h child)) (Srid opts) of
           Inl err \<Rightarrow> Some (Inl err)
         | Inr reg \<Rightarrow>
             (case computeGeometricError ops env h child of
                None \<Rightarrow> None
              | Some geometricError \<Rightarrow>
                  (let childJson =
                         \<lparr>Child_Content = content,
                          Child_BoundingVolume = \<lparr>Region = reg\<rparr>,
                          Child_GeometricError = geometricError,
                          Child_Refine = ''add''\<rparr>
                   in
                   case childrenLoop ops env h opts (i + 1) rest of
                     None \<Rightarrow> None
                   | Some (Inl err) \<Rightarrow> Some (Inl err)
                   | Some (Inr children) \<Rightarrow> Some (Inr (childJson # children)))))
      else childrenLoop ops env h opts (i + 1) rest)"

definition createTilesetJson ::
  "'f float64 \<Rightarrow> ('f, 'b) writer_env \<Rightarrow> ('f, 'b) heap \<Rightarrow> addr \<Rightarrow> TilerOptions \<Rightarrow>
   (error + byte list) option" where
  "createTilesetJson ops env h node opts =
     (if \<not> IsLeaf (h node) then
        (case computeGeometricError ops env h node of
           None \<Rightarrow> None
         | Some tilesetError \<Rightarrow>
        (case childrenLoop ops env h opts 0 (Children (h node)) of
           None \<Rightarrow> None
         | Some (Inl err) \<Rightarrow> Some (Inl err)
         | Some (Inr children) \<Rightarrow>
        (case Convert2DBoundingboxToWGS84Region env (BoundingBox (h node)) (Srid opts) of
           Inl err \<Rightarrow> Some (Inl err)
         | Inr reg \<Rightarrow>
        (case computeGeometricError ops env h node of
           None \<Rightarrow> None
         | Some rootError \<Rightarrow>
             (let root = \<lparr>Root_Children = children,
                          Root_Content = \<lparr>Url = ''content.pnts''\<rparr>,
                          Root_BoundingVolume = \<lparr>Region = reg\<rparr>,
                          Root_GeometricError = rootError,
                          Root_Refine = ''add''\<rparr>;
                  tileset = \<lparr>Tileset_Asset = \<lparr>Version = ''0.0''\<rparr>,
                             Tileset_GeometricError = tilesetError,
                             Tileset_Root = root\<rparr>
              in Some (MarshalIndent env tileset))))))
      else Some (Inl LeafError))"

definition writeJsonTileset ::
  "'f float64 \<Rightarrow> ('f, 'b) writer_env \<Rightarrow> ('f, 'b) heap \<Rightarrow> WorkUnit \<Rightarrow> fs \<Rightarrow> (fs \<times> error option) option" where
  "writeJsonTileset ops env h workUnit s =
     (let parentFolder = BasePath workUnit;
          node = OctNode workUnit
      in
      case createBaseFolder env s parentFolder of
        (s, Some err) \<Rightarrow> Some (s, Some err)
      | (s, None) \<Rightarrow>
          (let file = Join env parentFolder ''tileset.json'' in
           case createTilesetJson ops env h node (Opts workUnit) of
             None \<Rightarrow> None
           | Some (Inl err) \<Rightarrow> Some (s, Some err)
           | Some (Inr jsonData) \<Rightarrow> Some (osWriteFile env s file jsonData)))"

subsection \<open>The worker\<close>

definition doWork ::
  "'f float64 \<Rightarrow> ('f, 'b) writer_env \<Rightarrow> ('f, 'b) heap \<Rightarrow> WorkUnit \<Rightarrow> fs \<Rightarrow> (fs \<times> error option) option" where
  "doWork ops env h workUnit s =
     (case writeBinaryPnts ops env h workUnit s of
        None \<Rightarrow> None
      | Some (s, Some err) \<Rightarrow> Some (s, Some err)
      | Some (s, None) \<Rightarrow>
          if \<not> IsLeaf (h (OctNode workUnit)) then
            (case writeJsonTileset ops env h workUnit s of
               None \<Rightarrow> None
             | Some (s, Some err) \<Rightarrow> Some (s, Some err)
             | Some (s, None) \<Rightarrow> Some (s, None))
          else Some (s, None))"

text \<open>
  \<open>Consume\<close>, for the work units the worker receives from the channel before the
  channel is closed, in the order it receives them.  The result is the file system it
  leaves, the errors it has sent to the error channel, and the work units it has handed
  to \<open>doWork\<close>.  The wait on a full error channel and \<open>wg.Done\<close> are not modelled.
\<close>

record consumed =
  left :: fs
  posted :: "error list"
  worked :: "WorkUnit list"

fun Consume ::
  "'f float64 \<Rightarrow> ('f, 'b) writer_env \<Rightarrow> ('f, 'b) heap \<Rightarrow> WorkUnit list \<Rightarrow> fs \<Rightarrow> consumed option" where
  "Consume ops env h [] s = Some \<lparr>left = s, posted = [], worked = []\<rparr>"
| "Consume ops env h (work # rest) s =
     (case doWork ops env h work s of
        None \<Rightarrow> None
      | Some (s, Some err) \<Rightarrow> Some \<lparr>left = s, posted = [err], worked = [work]\<rparr>
      | Some (s, None) \<Rightarrow>
          (case Consume ops env h rest s of
             None \<Rightarrow> None
           | Some c \<Rightarrow> Some (c\<lparr>worked := work # worked c\<rparr>)))"

section \<open>Notions of the specification\<close>

text \<open>
  The ancestors of a node, as the specification names them: \<open>parentChain h p ps\<close> holds
  when following the parent pointers from \<open>p\<close> visits the addresses \<open>ps\<close>, nearest
  first, and then reaches \<open>nil\<close>.
\<close>

inductive parentChain :: "('f, 'b) heap \<Rightarrow> addr option \<Rightarrow> addr list \<Rightarrow> bool" where
  "parentChain h None []"
| "parentChain h (Parent (h p)) ps \<Longrightarrow> parentChain h (Some p) (p # ps)"

text \<open>
  The number \<open>T\<close> of the specification: the local count of the node plus, for every
  ancestor, the number of its items that lie inside the bounding box of the node.
\<close>

definition renderedPoints ::
  "('f, 'b) writer_env \<Rightarrow> ('f, 'b) heap \<Rightarrow> addr \<Rightarrow> addr list \<Rightarrow> int" where
  "renderedPoints env h node ancestors =
     LocalChildrenCount (h node)
     + (\<Sum>p\<leftarrow>ancestors. int (length (filter (CanContain env (BoundingBox (h node))) (Items (h p)))))"

text \<open>
  The child slots a tileset lists, as the specification names them: the slots \<open>i\<close>
  with a non-null child whose \<open>globalChildrenCount\<close> is positive, in the order of the
  slots, and the URL of such a child.
\<close>

definition listedSlots :: "('f, 'b) heap \<Rightarrow> addr option list \<Rightarrow> (nat \<times> addr) list" where
  "listedSlots h children =
     [(i, child). (i, Some child) \<leftarrow> zip [0 ..< length children] children,
                  0 < GlobalChildrenCount (h child)]"

definition childUrl :: "('f, 'b) heap \<Rightarrow> nat \<times> addr \<Rightarrow> string" where
  "childUrl h = (\<lambda>(i, child).
     Itoa (int i) @ (if IsLeaf (h child) then ''/content.pnts'' else ''/tileset.json''))"

section \<open>Concrete inputs\<close>

text \<open>
  The inputs at which the theorems below are evaluated.  \<open>real_ops\<close> reads \<open>float64\<close>
  values as real numbers; on the whole numbers that the inputs below hold, the sums,
  products and quotients taken are exact in \<open>float64\<close> as well, and \<open>%f\<close> prints a
  whole number with six zeros after the point.  The bit pattern is only taken of 0.
\<close>

definition real_ops :: "real float64" where
  "real_ops =
     \<lparr>of_int64 = real_of_int, fadd = (+), fsub = (-), fmul = (*), fdiv = (/),
      Pow = (powr), lit_0_333 = 333 / 1000,
      Sprintf_f = (\<lambda>x. Itoa \<lfloor>x\<rfloor> @ ''.000000''),
      float32bits = (\<lambda>x. 0)\<rparr>"

text \<open>
  A file in point format 0 with one record of 40 bytes, which is none of 20, 18, 19
  and 17: x = 1, y = 2, z = 3 and classification 2, read with both flags off.
\<close>

definition long_header :: "real LasHeader" where
  "long_header =
     \<lparr>PointFormatID = 0, PointRecordLength = 40, NumberPoints = 1, OffsetToPoints = 227,
      XScaleFactor = 1, YScaleFactor = 1, ZScaleFactor = 1,
      XOffset = 0, YOffset = 0, ZOffset = 0\<rparr>"

definition long_record :: "byte list" where
  "long_record = [1, 0, 0, 0, 2, 0, 0, 0, 3, 0, 0, 0, 0, 2, 0, 0, 0] @ replicate 23 0"

definition long_env :: "real las_env" where
  "long_env =
     \<lparr>Open = (\<lambda>name. None), readHeader = Inr long_header, readVLRs = None,
      ReadAt = (\<lambda>n off. (long_record, None)), NumCPU = 4\<rparr>"

definition no_conversion :: "nat \<Rightarrow> nat \<Rightarrow> real Coordinate \<Rightarrow> error + real Coordinate" where
  "no_conversion src dst c = Inr c"

definition no_correction :: "real \<Rightarrow> real \<Rightarrow> real \<Rightarrow> real" where
  "no_correction lat lon z = z"

text \<open>
  A file in point format 0 with one record of 20 bytes whose \<open>ReadAt\<close> fails with an
  error that is not \<open>io.EOF\<close> and stores nothing.
\<close>

definition short_header :: "real LasHeader" where
  "short_header =
     \<lparr>PointFormatID = 0, PointRecordLength = 20, NumberPoints = 1, OffsetToPoints = 227,
      XScaleFactor = 1, YScaleFactor = 1, ZScaleFactor = 1,
      XOffset = 0, YOffset = 0, ZOffset = 0\<rparr>"

definition failing_env :: "real las_env" where
  "failing_env =
     \<lparr>Open = (\<lambda>name. None), readHeader = Inr short_header, readVLRs = None,
      ReadAt = (\<lambda>n off. ([], Some IOError)), NumCPU = 4\<rparr>"

text \<open>
  An octree of five nodes.  A bounding box is given by its six bounds; a box contains a
  point whose coordinates lie within the bounds, the bounds included.  The root (address
  0) covers the cube of side 4 at the origin and holds one point; its children sit in
  the slots 0 (address 5, a leaf with one point), 3 (an empty leaf) and 7 (address 2, an
  inner node with one point and the leaf 4 with seven points below it).  Every call on
  the file system succeeds, except \<open>MkdirAll\<close> on the path \<open>locked\<close>.
\<close>

record box =
  minX :: real
  maxX :: real
  minY :: real
  maxY :: real
  minZ :: real
  maxZ :: real

definition cube :: "real \<Rightarrow> real \<Rightarrow> real \<Rightarrow> real \<Rightarrow> box" where
  "cube x y z side =
     \<lparr>minX = x, maxX = x + side, minY = y, maxY = y + side, minZ = z, maxZ = z + side\<rparr>"

definition point :: "real \<Rightarrow> real \<Rightarrow> real \<Rightarrow> real OctElement" where
  "point x y z = NewOctElement x y z 10 20 30 5 2"

definition tree_heap :: "(real, box) heap" where
  "tree_heap a =
     (if a = 0 then
        \<lparr>BoundingBox = cube 0 0 0 4,
         Children = [Some 5, None, None, Some 3, None, None, None, Some 2],
         Items = [point 1 1 1],
         Parent = None, LocalChildrenCount = 1, GlobalChildrenCount = 10, IsLeaf = False\<rparr>
      else if a = 5 then
        \<lparr>BoundingBox = cube 0 0 0 2,
         Children = [None, None, None, None, None, None, None, None],
         Items = [point 1 1 1],
         Parent = Some 0, LocalChildrenCount = 1, GlobalChildrenCount = 1, IsLeaf = True\<rparr>
      else if a = 2 then
        \<lparr>BoundingBox = cube 2 2 2 2,
         Children = [None, None, None, None, None, None, None, Some 4],
         Items = [point 3 3 3],
         Parent = Some 0, LocalChildrenCount = 1, GlobalChildrenCount = 8, IsLeaf = False\<rparr>
      else if a = 4 then
        \<lparr>BoundingBox = cube 3 3 3 1,
         Children = [None, None, None, None, None, None, None, None],
         Items = [point 3 3 4, point 3 4 3, point 4 3 3, point 3 4 4, point 4 3 4,
                  point 4 4 3, point 4 4 4],
         Parent = Some 2, LocalChildrenCount = 7, GlobalChildrenCount = 7, IsLeaf = True\<rparr>
      else
        \<lparr>BoundingBox = cube 2 2 0 2,
         Children = [None, None, None, None, None, None, None, None],
         Items = [],
         Parent = Some 0, LocalChildrenCount = 0, GlobalChildrenCount = 0, IsLeaf = True\<rparr>)"

definition tree_env :: "(real, box) writer_env" where
  "tree_env =
     \<lparr>Join = (\<lambda>dir name. dir @ ''/'' @ name),
      MkdirAll = (\<lambda>p. if p = ''locked'' then Some MkdirError else None),
      WriteFile = (\<lambda>p. None),
      ConvertToWGS84Cartesian = (\<lambda>c srid. Inr c),
      Convert2DBoundingboxToWGS84Region =
        (\<lambda>b srid. Inr [minX b, minY b, maxX b, maxY b, minZ b, maxZ b]),
      CanContain = (\<lambda>b e. minX b \<le> X e \<and> X e \<le> maxX b \<and> minY b \<le> Y e \<and> Y e \<le> maxY b
                          \<and> minZ b \<le> Z e \<and> Z e \<le> maxZ b),
      GetVolume = (\<lambda>b. (maxX b - minX b) * (maxY b - minY b) * (maxZ b - minZ b)),
      MarshalIndent =
        (\<lambda>t. Inr (bytesOf (concat (map (\<lambda>c. Url (Child_Content c) @ ''\<newline>'')
                                     (Root_Children (Tileset_Root t))))))\<rparr>"

definition root_unit :: WorkUnit where
  "root_unit = \<lparr>OctNode = 0, Opts = \<lparr>Srid = 4326\<rparr>, BasePath = ''out''\<rparr>"

definition empty_fs :: fs where
  "empty_fs = \<lparr>dirs = {}, files = (\<lambda>p. None)\<rparr>"

text \<open>The tile of a node that holds the one point (1, 1, 1), as the root and its first child do.\<close>

definition one_point_pnts :: "byte list" where
  "one_point_pnts =
     outputByte
       ''{\"POINTS_LENGTH\":1,\"RTC_CENTER\":[1.000000000,1.000000,1.000000],\"POSITION\":{\"byteOffset\":0},\"RGB\":{\"byteOffset\":12}}''
       [0, 0, 0, 0, 0, 0, 0, 0, 0, 0, 0, 0]
       [10, 20, 30]
       ''{\"INTENSITY\":{\"byteOffset\":0, \"componentType\":\"UNSIGNED_BYTE\", \"type\":\"SCALAR\"},\"CLASSIFICATION\":{\"byteOffset\":1, \"componentType\":\"UNSIGNED_BYTE\", \"type\":\"SCALAR\"}}''
       [5]
       [2]"

definition root_fs :: fs where
  "root_fs = \<lparr>dirs = {''out''}, files = (\<lambda>p. None)(''out/content.pnts'' \<mapsto> one_point_pnts)\<rparr>"

text \<open>
  Work units for the first child, for a folder that cannot be made, and the file system
  after the first child is written.
\<close>

definition leaf_unit :: WorkUnit where
  "leaf_unit = \<lparr>OctNode = 5, Opts = \<lparr>Srid = 4326\<rparr>, BasePath = ''out/0''\<rparr>"

definition locked_unit :: WorkUnit where
  "locked_unit = \<lparr>OctNode = 2, Opts = \<lparr>Srid = 4326\<rparr>, BasePath = ''locked''\<rparr>"

definition leaf_fs :: fs where
  "leaf_fs = \<lparr>dirs = {''out/0''}, files = (\<lambda>p. None)(''out/0/content.pnts'' \<mapsto> one_point_pnts)\<rparr>"

text \<open>What the example's \<open>MarshalIndent\<close> makes of the tileset of the root.\<close>

definition root_json :: "byte list" where
  "root_json = bytesOf ''0/content.pnts\<newline>7/tileset.json\<newline>''"

text \<open>
  A file in point format 0 with one record of 10 bytes, too short for the twelve bytes
  of the three coordinates.
\<close>

definition tiny_header :: "real LasHeader" where
  "tiny_header =
     \<lparr>PointFormatID = 0, PointRecordLength = 10, NumberPoints = 1, OffsetToPoints = 227,
      XScaleFactor = 1, YScaleFactor = 1, ZScaleFactor = 1,
      XOffset = 0, YOffset = 0, ZOffset = 0\<rparr>"

definition tiny_env :: "real las_env" where
  "tiny_env =
     \<lparr>Open = (\<lambda>name. None), readHeader = Inr tiny_header, readVLRs = None,
      ReadAt = (\<lambda>n off. ([1, 0, 0, 0, 2, 0, 0, 0, 3, 0], None)), NumCPU = 4\<rparr>"

text \<open>
  \<open>nan_ops\<close> reads \<open>float64\<close> values as real numbers together with NaN, which is
  \<open>None\<close>: NaN spreads through every operation, the quotient of zero by zero is NaN,
  and \<open>%f\<close> prints NaN as \<open>NaN\<close>.  Infinities are left out; the inputs below divide
  by zero only the sum of no numbers, which is zero.
\<close>

definition nan_ops :: "real option float64" where
  "nan_ops =
     \<lparr>of_int64 = (\<lambda>i. Some (real_of_int i)),
      fadd = (\<lambda>a b. case (a, b) of (Some x, Some y) \<Rightarrow> Some (x + y) | _ \<Rightarrow> None),
      fsub = (\<lambda>a b. case (a, b) of (Some x, Some y) \<Rightarrow> Some (x - y) | _ \<Rightarrow> None),
      fmul = (\<lambda>a b. case (a, b) of (Some x, Some y) \<Rightarrow> Some (x * y) | _ \<Rightarrow> None),
      fdiv = (\<lambda>a b. case (a, b) of
                       (Some x, Some y) \<Rightarrow> if y = 0 then None else Some (x / y)
                     | _ \<Rightarrow> None),
      Pow = (\<lambda>a b. case (a, b) of (Some x, Some y) \<Rightarrow> Some (x powr y) | _ \<Rightarrow> None),
      lit_0_333 = Some (333 / 1000),
      Sprintf_f = (\<lambda>a. case a of None \<Rightarrow> ''NaN'' | Some x \<Rightarrow> Itoa \<lfloor>x\<rfloor> @ ''.000000''),
      float32bits = (\<lambda>a. 0)\<rparr>"

text \<open>
  The tile of a node without items as \<open>nan_ops\<close> gives it, a heap whose nodes are all
  empty leaves, an environment in which every call succeeds, and the work unit and the
  file system after it.
\<close>

definition no_items_pnts :: "byte list" where
  "no_items_pnts =
     outputByte
       ''{\"POINTS_LENGTH\":0,\"RTC_CENTER\":[NaN000,NaN,NaN],\"POSITION\":{\"byteOffset\":0},\"RGB\":{\"byteOffset\":0}}''
       [] []
       ''{\"INTENSITY\":{\"byteOffset\":0, \"componentType\":\"UNSIGNED_BYTE\", \"type\":\"SCALAR\"},\"CLASSIFICATION\":{\"byteOffset\":0, \"componentType\":\"UNSIGNED_BYTE\", \"type\":\"SCALAR\"}}''
       [] []"

definition empty_heap :: "(real option, box) heap" where
  "empty_heap a =
     \<lparr>BoundingBox = cube 2 2 0 2,
      Children = [None, None, None, None, None, None, None, None],
      Items = [],
      Parent = None, LocalChildrenCount = 0, GlobalChildrenCount = 0, IsLeaf = True\<rparr>"

definition nan_env :: "(real option, box) writer_env" where
  "nan_env =
     \<lparr>Join = (\<lambda>dir name. dir @ ''/'' @ name),
      MkdirAll = (\<lambda>p. None),
      WriteFile = (\<lambda>p. None),
      ConvertToWGS84Cartesian = (\<lambda>c srid. Inr c),
      Convert2DBoundingboxToWGS84Region =
        (\<lambda>b srid. Inr [Some (minX b), Some (minY b), Some (maxX b), Some (maxY b),
                        Some (minZ b), Some (maxZ b)]),
      CanContain = (\<lambda>b e. False),
      GetVolume = (\<lambda>b. Some ((maxX b - minX b) * (maxY b - minY b) * (maxZ b - minZ b))),
      MarshalIndent = (\<lambda>t. Inr [])\<rparr>"

definition empty_unit :: WorkUnit where
  "empty_unit = \<lparr>OctNode = 3, Opts = \<lparr>Srid = 4326\<rparr>, BasePath = ''out/3''\<rparr>"

definition empty_node_fs :: fs where
  "empty_node_fs = \<lparr>dirs = {''out/3''}, files = (\<lambda>p. None)(''out/3/content.pnts'' \<mapsto> no_items_pnts)\<rparr>"

section \<open>Properties of the LAS reader\<close>

subsection \<open>The blocks of the parallel decoder\<close>

declare blocks.simps [simp del]

lemma blocks_step:
  assumes "s < n"
  shows "blocks n b s =
           (s, if s + b \<ge> n then n - 1 else s + b) # blocks n b ((if s + b \<ge> n then n - 1 else s + b) + 1)"
  using assms by (simp add: blocks.simps [of n b s] Let_def)

lemma blocks_done: "\<not> s < n \<Longrightarrow> blocks n b s = []"
  by (simp add: blocks.simps [of n b s])

lemma blocks_indices: "concat (map blockIndices (blocks n b s)) = [s ..< n]"
proof (induction n b s rule: blocks.induct)
  case (1 n b s)
  show ?case
  proof (cases "s < n")
    case False
    then show ?thesis by (simp add: blocks_done)
  next
    case True
    define e where "e = (if s + b \<ge> n then n - 1 else s + b)"
    have e: "s \<le> e" "e < n" using True by (auto simp: e_def)
    have IH: "concat (map blockIndices (blocks n b (e + 1))) = [e + 1 ..< n]"
      using "1.IH" [OF True refl, of e] by (simp add: e_def)
    have "blocks n b s = (s, e) # blocks n b (e + 1)"
      using blocks_step [OF True, of b] by (simp add: e_def)
    then have "concat (map blockIndices (blocks n b s)) = [s ..< Suc e] @ [e + 1 ..< n]"
      using IH by (simp add: blockIndices_def)
    also have "\<dots> = [s ..< n]"
      using e upt_add_eq_append [of s "Suc e" "n - Suc e"] by simp
    finally show ?thesis .
  qed
qed

lemma blocks_nth:
  "i < length (blocks n b s) \<Longrightarrow>
   blocks n b s ! i = (s + i * (b + 1), min (s + i * (b + 1) + b) (n - 1))"
proof (induction n b s arbitrary: i rule: blocks.induct)
  case (1 n b s)
  show ?case
  proof (cases "s < n")
    case False
    with "1.prems" show ?thesis by (simp add: blocks_done)
  next
    case True
    define e where "e = (if s + b \<ge> n then n - 1 else s + b)"
    have eq: "blocks n b s = (s, e) # blocks n b (e + 1)"
      using blocks_step [OF True, of b] by (simp add: e_def)
    show ?thesis
    proof (cases i)
      case 0
      then show ?thesis using eq True by (auto simp: e_def min_def)
    next
      case (Suc j)
      with "1.prems" eq have j: "j < length (blocks n b (e + 1))" by simp
      have "e + 1 < n"
      proof (rule ccontr)
        assume "\<not> e + 1 < n"
        then have "blocks n b (e + 1) = []" by (rule blocks_done)
        with j show False by simp
      qed
      then have e': "e = s + b" by (auto simp: e_def split: if_splits)
      have "blocks n b (e + 1) ! j = (e + 1 + j * (b + 1), min (e + 1 + j * (b + 1) + b) (n - 1))"
        using "1.IH" [OF True refl, of e j] j by (simp add: e_def)
      then show ?thesis using eq Suc by (simp add: e' algebra_simps)
    qed
  qed
qed

lemma blocks_length: "length (blocks n b s) = (n - s + b) div (b + 1)"
proof (induction n b s rule: blocks.induct)
  case (1 n b s)
  show ?case
  proof (cases "s < n")
    case False
    then show ?thesis by (simp add: blocks_done)
  next
    case True
    define e where "e = (if s + b \<ge> n then n - 1 else s + b)"
    have eq: "blocks n b s = (s, e) # blocks n b (e + 1)"
      using blocks_step [OF True, of b] by (simp add: e_def)
    have IH: "length (blocks n b (e + 1)) = (n - (e + 1) + b) div (b + 1)"
      using "1.IH" [OF True refl, of e] by (simp add: e_def)
    show ?thesis
    proof (cases "s + b \<ge> n")
      case True
      then have "e = n - 1" by (simp add: e_def)
      then have "length (blocks n b s) = 1" using eq IH \<open>s < n\<close> by simp
      moreover have "(n - s + b) div (b + 1) = 1"
      proof -
        have "n - s + b = 1 * (b + 1) + (n - s - 1)" using \<open>s < n\<close> by simp
        moreover have "n - s - 1 < b + 1" using True by simp
        ultimately show ?thesis
          by (metis add.commute div_mult_self1 div_less add.right_neutral add_is_0 zero_neq_one)
      qed
      ultimately show ?thesis by simp
    next
      case False
      then have e': "e = s + b" by (simp add: e_def)
      have "n - s + b = (n - (e + 1) + b) + (b + 1)" using False by (simp add: e')
      then have "(n - s + b) div (b + 1) = Suc ((n - (e + 1) + b) div (b + 1))"
        by (metis div_add_self2 Suc_eq_plus1 add_is_0 zero_neq_one)
      then show ?thesis using eq IH by simp
    qed
  qed
qed

lemma blocks_count_le:
  assumes "0 < (c::nat)"
  shows "(n + n div c) div (n div c + 1) \<le> c"
proof -
  have "n < c * (n div c + 1)"
    using assms by (metis Suc_eq_plus1 dividend_less_times_div mult.commute mult_Suc_right add.commute)
  then have "n + n div c < c * (n div c + 1) + (n div c + 1)" by simp
  then have "n + n div c < (c + 1) * (n div c + 1)" by (simp add: algebra_simps)
  then have "(n + n div c) div (n div c + 1) < c + 1"
    by (simp add: less_mult_imp_div_less)
  then show ?thesis by simp
qed

text \<open>
  C8, as the code has it.  For \<open>numPoints \<ge> 1\<close> points and \<open>numCPU \<ge> 1\<close> workers the
  loop of \<open>readPointsOctElem\<close> starts one goroutine per block, and the blocks, taken in
  order, run through the indices \<open>0, ..., numPoints - 1\<close> exactly once.  Block \<open>i\<close>
  starts at \<open>i * (blockSize + 1)\<close> and holds \<open>blockSize + 1\<close> indices, where
  \<open>blockSize = numPoints div numCPU\<close>, except that the last block stops at
  \<open>numPoints - 1\<close>.  The number of blocks is \<open>numPoints\<close> divided by \<open>blockSize + 1\<close>,
  rounded up, which is at most \<open>numCPU\<close>.
\<close>

theorem partitionPoints_blocks:
  assumes "1 \<le> numPoints" and "1 \<le> numCPU"
  shows "\<exists>bks. partitionPoints numPoints numCPU = Returns bks
           \<and> concat (map blockIndices bks) = [0 ..< numPoints]
           \<and> length bks = (numPoints + numPoints div numCPU) div (numPoints div numCPU + 1)
           \<and> length bks \<le> numCPU
           \<and> (\<forall>i < length bks.
                 bks ! i = (i * (numPoints div numCPU + 1),
                            min (i * (numPoints div numCPU + 1) + numPoints div numCPU)
                                (numPoints - 1)))"
proof -
  let ?b = "numPoints div numCPU"
  have ret: "partitionPoints numPoints numCPU = Returns (blocks numPoints ?b 0)"
    using assms by (simp add: partitionPoints_def)
  have len: "length (blocks numPoints ?b 0) = (numPoints + ?b) div (?b + 1)"
    using blocks_length [of numPoints ?b 0] by simp
  have le: "length (blocks numPoints ?b 0) \<le> numCPU"
    using len blocks_count_le [of numCPU numPoints] assms by simp
  have nth: "\<forall>i < length (blocks numPoints ?b 0).
               blocks numPoints ?b 0 ! i = (i * (?b + 1), min (i * (?b + 1) + ?b) (numPoints - 1))"
    using blocks_nth [of _ numPoints ?b 0] by simp
  show ?thesis
    using ret len le nth blocks_indices [of numPoints ?b 0] by blast
qed

theorem partitionPoints_blocks_witness:
  "(1::nat) \<le> 9 \<and> (1::nat) \<le> 4
   \<and> (\<exists>bks. partitionPoints 9 4 = Returns bks
          \<and> concat (map blockIndices bks) = [0 ..< 9]
          \<and> length bks = (9 + 9 div 4) div (9 div 4 + 1)
          \<and> length bks \<le> 4
          \<and> (\<forall>i < length bks.
                bks ! i = (i * (9 div 4 + 1), min (i * (9 div 4 + 1) + 9 div 4) (9 - 1))))"
  using partitionPoints_blocks [of 9 4] by simp

text \<open>
  Nine points on four workers: the loop starts three goroutines, not four, each with
  three points; no block takes up a remainder.
\<close>

theorem partitionPoints_counterexample:
  "partitionPoints 9 4 = Returns [(0, 2), (3, 5), (6, 8)]
   \<and> length [(0::nat, 2::nat), (3, 5), (6, 8)] \<noteq> 4"
  by (simp add: partitionPoints_def blocks.simps)

subsection \<open>Record lengths\<close>

lemma selectFlags_mismatch:
  assumes "PointFormatID (Header las) < 4"
    and "PointRecordLength (Header las) \<notin> set (recLengths ! PointFormatID (Header las))"
  shows "selectFlags las = Returns las"
proof -
  have "PointFormatID (Header las) \<in> {0, 1, 2, 3}" using assms(1) by auto
  then show ?thesis using assms(2)
    by (auto simp: selectFlags_def recLengths_def Let_def)
qed

lemma readPointsOctElem_mismatch:
  assumes "PointFormatID (Header las) < 4"
    and "PointRecordLength (Header las) \<notin> set (recLengths ! PointFormatID (Header las))"
  shows "readPointsOctElem ops env Convert zCorrection inSrid las =
           obind (partitionPoints (NumberPoints (Header las)) (NumCPU env)) (\<lambda>bks.
           obind (parseBlocks
                    (parseRecord ops Convert zCorrection inSrid las
                       (fst (readBuffer env (NumberPoints (Header las) * PointRecordLength (Header las))
                               (OffsetToPoints (Header las))))) bks) (\<lambda>elems.
           Returns (las, None, elems)))"
  using selectFlags_mismatch [OF assms]
  by (cases "readBuffer env (NumberPoints (Header las) * PointRecordLength (Header las))
                               (OffsetToPoints (Header las))")
     (simp add: readPointsOctElem_def Let_def obind_def)

lemma parseIndices_all:
  assumes "\<forall>i \<in> set is. \<exists>e. parse i = Returns e"
  shows "\<exists>es. parseIndices parse is = Returns es \<and> length es = length is"
  using assms
proof (induction "is")
  case Nil
  then show ?case by simp
next
  case (Cons i "is")
  then obtain e es where "parse i = Returns e"
    and "parseIndices parse is = Returns es" and "length es = length is"
    by auto
  then show ?case by (simp add: obind_def)
qed

lemma parseBlocks_all:
  assumes "\<forall>i \<in> set (concat (map blockIndices bks)). \<exists>e. parse i = Returns e"
  shows "\<exists>ess. parseBlocks parse bks = Returns ess
           \<and> length (concat ess) = length (concat (map blockIndices bks))"
  using assms
proof (induction bks)
  case Nil
  then show ?case by simp
next
  case (Cons bk bks)
  have "\<forall>i \<in> set (blockIndices bk). \<exists>e. parse i = Returns e" using Cons.prems by simp
  from parseIndices_all [OF this] obtain es where
    es: "parseIndices parse (blockIndices bk) = Returns es" "length es = length (blockIndices bk)"
    by blast
  have "\<forall>i \<in> set (concat (map blockIndices bks)). \<exists>e. parse i = Returns e"
    using Cons.prems by simp
  from Cons.IH [OF this] obtain ess where
    "parseBlocks parse bks = Returns ess"
    "length (concat ess) = length (concat (map blockIndices bks))"
    by blast
  with es show ?case by (simp add: obind_def)
qed

lemma length_readBuffer: "length (fst (readBuffer env n off)) = n"
  by (cases "ReadAt env n off") (auto simp: readBuffer_def)

lemma parseRecord_returns:
  assumes fl: "\<not> usePointIntensity las" "\<not> usePointUserdata las"
    and fmt: "PointFormatID (Header las) < 4"
    and len: "recLengths ! PointFormatID (Header las) ! 3 \<le> PointRecordLength (Header las)"
    and buf: "i * PointRecordLength (Header las) + PointRecordLength (Header las) \<le> length b"
    and conv: "\<forall>c. \<exists>c'. Convert inSrid 4326 c = Inr c'"
  shows "\<exists>e. parseRecord ops Convert zCorrection inSrid las b i = Returns e"
proof -
  define L where "L = PointRecordLength (Header las)"
  define st where "st = i * L"
  have f: "PointFormatID (Header las) \<in> {0, 1, 2, 3}" using fmt by auto
  have room: "st + recLengths ! PointFormatID (Header las) ! 3 \<le> length b"
    using len buf by (simp add: L_def st_def)
  have conv': "\<exists>tx ty tz. Convert inSrid 4326 c = Inr (tx, ty, tz)" for c
    using conv [rule_format, of c] by (cases "Convert inSrid 4326 c") auto
  have u32: "k + 4 \<le> length b \<Longrightarrow> \<exists>v. Uint32 b k = Returns v" for k
    by (simp add: Uint32_def)
  have u16: "k + 2 \<le> length b \<Longrightarrow> \<exists>v. Uint16 b k = Returns v" for k
    by (simp add: Uint16_def)
  obtain xr yr zr where r: "Uint32 b st = Returns xr" "Uint32 b (st + 4) = Returns yr"
    "Uint32 b (st + 4 + 4) = Returns zr"
    using room f u32 [of st] u32 [of "st + 4"] u32 [of "st + 4 + 4"]
    by (auto simp: recLengths_def)
  obtain tx ty tz where cv:
    "Convert inSrid 4326
       (fadd ops (fmul ops (of_int64 ops (int32 xr)) (XScaleFactor (Header las))) (XOffset (Header las)),
        fadd ops (fmul ops (of_int64 ops (int32 yr)) (YScaleFactor (Header las))) (YOffset (Header las)),
        fadd ops (fmul ops (of_int64 ops (int32 zr)) (ZScaleFactor (Header las))) (ZOffset (Header las)))
     = Inr (tx, ty, tz)"
    using conv' by blast
  have cl: "index b (st + 4 + 4 + 4 + 1) = Returns (b ! (st + 4 + 4 + 4 + 1))"
    using room f by (auto simp: index_def recLengths_def)
  show ?thesis
  proof (cases "PointFormatID (Header las) = 2 \<or> PointFormatID (Header las) = 3")
    case False
    then show ?thesis
      using fl r cl cv
      unfolding parseRecord_def Let_def L_def [symmetric] st_def [symmetric]
      by (auto simp: obind_def split: sum.splits prod.splits)
  next
    case True
    define q where "q = (if PointFormatID (Header las) = 1 \<or> PointFormatID (Header las) = 3
                        then st + 4 + 4 + 4 + 1 + 1 + 1 + 2 + 8 else st + 4 + 4 + 4 + 1 + 1 + 1 + 2)"
    have "q + 6 \<le> length b" using room True by (auto simp: q_def recLengths_def)
    then obtain rr gg bb where c: "Uint16 b q = Returns rr" "Uint16 b (q + 2) = Returns gg"
      "Uint16 b (q + 4) = Returns bb"
      using u16 [of q] u16 [of "q + 2"] u16 [of "q + 4"] by auto
    show ?thesis
      using fl r cl cv True c
      unfolding parseRecord_def Let_def L_def [symmetric] st_def [symmetric]
      by (auto simp: obind_def q_def split: sum.splits prod.splits)
  qed
qed

lemma outcome_cases:
  "(\<exists>elems. obind m (\<lambda>bks. obind (f bks) (\<lambda>elems. Returns (l, None, elems))) = Returns (l, None, elems))
   \<or> obind m (\<lambda>bks. obind (f bks) (\<lambda>elems. Returns (l, None, elems))) = Panics
   \<or> obind m (\<lambda>bks. obind (f bks) (\<lambda>elems. Returns (l, None, elems))) = Exits"
proof (cases m)
  case (Returns bks)
  then show ?thesis by (cases "f bks") (simp_all add: obind_def)
qed (simp_all add: obind_def)

lemma readForOctree_mismatch_chain:
  assumes "Open env (fileName las) = None"
    and "readHeader env = Inr hdr"
    and "readVLRs env = None"
    and "fileMode las \<noteq> ''rh''"
    and "PointFormatID hdr < 4"
    and "PointRecordLength hdr \<notin> set (recLengths ! PointFormatID hdr)"
  shows "readForOctree ops env Convert zCorrection inSrid las =
           obind (partitionPoints (NumberPoints hdr) (NumCPU env)) (\<lambda>bks.
           obind (parseBlocks
                    (parseRecord ops Convert zCorrection inSrid (las\<lparr>Header := hdr\<rparr>)
                       (fst (readBuffer env (NumberPoints hdr * PointRecordLength hdr)
                               (OffsetToPoints hdr)))) bks) (\<lambda>elems.
           Returns (las\<lparr>Header := hdr\<rparr>, None, elems)))"
proof -
  let ?las = "las\<lparr>Header := hdr\<rparr>"
  have h: "PointFormatID (Header ?las) < 4"
    "PointRecordLength (Header ?las) \<notin> set (recLengths ! PointFormatID (Header ?las))"
    using assms(5,6) by simp_all
  have "readForOctree ops env Convert zCorrection inSrid las =
          obind (readPointsOctElem ops env Convert zCorrection inSrid ?las)
            (\<lambda>(las, err, elems). case err of Some e \<Rightarrow> Returns (las, Some e, elems)
                                  | None \<Rightarrow> Returns (las, None, elems))"
    using assms(1-4) selectFlags_mismatch [OF h]
    by (simp add: readForOctree_def obind_def)
  also have "\<dots> = obind (partitionPoints (NumberPoints hdr) (NumCPU env)) (\<lambda>bks.
           obind (parseBlocks
                    (parseRecord ops Convert zCorrection inSrid ?las
                       (fst (readBuffer env (NumberPoints hdr * PointRecordLength hdr)
                               (OffsetToPoints hdr)))) bks) (\<lambda>elems.
           Returns (?las, None, elems)))"
    unfolding readPointsOctElem_mismatch [OF h]
    by (simp add: obind_def split: outcome.splits)
  finally show ?thesis .
qed

lemma mismatch_all_parsed:
  assumes fl: "\<not> usePointIntensity las" "\<not> usePointUserdata las"
    and fmt: "PointFormatID hdr < 4"
    and len: "recLengths ! PointFormatID hdr ! 3 \<le> PointRecordLength hdr"
    and cpu: "1 \<le> NumCPU env"
    and conv: "\<forall>c. \<exists>c'. Convert inSrid 4326 c = Inr c'"
  shows "\<exists>elems.
           obind (partitionPoints (NumberPoints hdr) (NumCPU env)) (\<lambda>bks.
           obind (parseBlocks
                    (parseRecord ops Convert zCorrection inSrid (las\<lparr>Header := hdr\<rparr>)
                       (fst (readBuffer env (NumberPoints hdr * PointRecordLength hdr)
                               (OffsetToPoints hdr)))) bks) (\<lambda>elems.
           Returns (las\<lparr>Header := hdr\<rparr>, None, elems)))
           = Returns (las\<lparr>Header := hdr\<rparr>, None, elems)
         \<and> length (concat elems) = NumberPoints hdr"
proof -
  let ?las = "las\<lparr>Header := hdr\<rparr>"
  let ?b = "fst (readBuffer env (NumberPoints hdr * PointRecordLength hdr) (OffsetToPoints hdr))"
  let ?bks = "blocks (NumberPoints hdr) (NumberPoints hdr div NumCPU env) 0"
  have p: "partitionPoints (NumberPoints hdr) (NumCPU env) = Returns ?bks"
    using cpu by (simp add: partitionPoints_def)
  have idx: "concat (map blockIndices ?bks) = [0 ..< NumberPoints hdr]"
    by (rule blocks_indices)
  have "\<forall>i \<in> set (concat (map blockIndices ?bks)).
          \<exists>e. parseRecord ops Convert zCorrection inSrid ?las ?b i = Returns e"
  proof
    fix i assume "i \<in> set (concat (map blockIndices ?bks))"
    then have i: "i < NumberPoints hdr" unfolding idx by simp
    have "Suc i * PointRecordLength hdr \<le> NumberPoints hdr * PointRecordLength hdr"
      using i by (intro mult_le_mono1) simp
    then have "i * PointRecordLength (Header ?las) + PointRecordLength (Header ?las) \<le> length ?b"
      by (simp add: length_readBuffer)
    then show "\<exists>e. parseRecord ops Convert zCorrection inSrid ?las ?b i = Returns e"
      using fl fmt len conv
      by (intro parseRecord_returns) simp_all
  qed
  from parseBlocks_all [OF this] obtain ess where
    "parseBlocks (parseRecord ops Convert zCorrection inSrid ?las ?b) ?bks = Returns ess"
    "length (concat ess) = length (concat (map blockIndices ?bks))"
    by blast
  then show ?thesis unfolding idx p by (simp add: obind_def)
qed

text \<open>
  C1, as the code has it.  When the header has a point format in 0..3 and a record
  length that is none of the four lengths of that format, \<open>readForOctree\<close> reports no
  format error and never returns an error: the \<open>if\<close> chain leaves both flags as they
  are, and the reader goes on to cut the records into blocks and to parse them with
  these flags.  The run ends in one of three ways: it returns \<open>nil\<close>, a goroutine
  panics, or the process is ended by \<open>log.Fatal\<close>.  When both flags are off (as
  \<open>NewLasFileForTiler\<close> leaves them), the record length is at least the shortest
  length of the format (17, 25, 23, 31), there is at least one CPU and every coordinate
  conversion succeeds, it returns \<open>nil\<close> and has parsed all \<open>NumberPoints\<close> records.
\<close>

theorem readForOctree_length_mismatch:
  assumes "Open env (fileName las) = None"
    and "readHeader env = Inr hdr"
    and "readVLRs env = None"
    and "fileMode las \<noteq> ''rh''"
    and "PointFormatID hdr < 4"
    and "PointRecordLength hdr \<notin> set (recLengths ! PointFormatID hdr)"
  shows "readForOctree ops env Convert zCorrection inSrid las =
           obind (partitionPoints (NumberPoints hdr) (NumCPU env)) (\<lambda>bks.
           obind (parseBlocks
                    (parseRecord ops Convert zCorrection inSrid (las\<lparr>Header := hdr\<rparr>)
                       (fst (readBuffer env (NumberPoints hdr * PointRecordLength hdr)
                               (OffsetToPoints hdr)))) bks) (\<lambda>elems.
           Returns (las\<lparr>Header := hdr\<rparr>, None, elems)))
       \<and> ((\<exists>elems. readForOctree ops env Convert zCorrection inSrid las
                       = Returns (las\<lparr>Header := hdr\<rparr>, None, elems))
            \<or> readForOctree ops env Convert zCorrection inSrid las = Panics
            \<or> readForOctree ops env Convert zCorrection inSrid las = Exits)
       \<and> (\<not> usePointIntensity las \<and> \<not> usePointUserdata las
            \<and> recLengths ! PointFormatID hdr ! 3 \<le> PointRecordLength hdr
            \<and> 1 \<le> NumCPU env
            \<and> (\<forall>c. \<exists>c'. Convert inSrid 4326 c = Inr c') \<longrightarrow>
            (\<exists>elems. readForOctree ops env Convert zCorrection inSrid las
                        = Returns (las\<lparr>Header := hdr\<rparr>, None, elems)
                    \<and> length (concat elems) = NumberPoints hdr))"
proof (intro conjI impI)
  note chain = readForOctree_mismatch_chain [OF assms, of ops Convert zCorrection inSrid]
  show "readForOctree ops env Convert zCorrection inSrid las =
           obind (partitionPoints (NumberPoints hdr) (NumCPU env)) (\<lambda>bks.
           obind (parseBlocks
                    (parseRecord ops Convert zCorrection inSrid (las\<lparr>Header := hdr\<rparr>)
                       (fst (readBuffer env (NumberPoints hdr * PointRecordLength hdr)
                               (OffsetToPoints hdr)))) bks) (\<lambda>elems.
           Returns (las\<lparr>Header := hdr\<rparr>, None, elems)))"
    by (rule chain)
  show "(\<exists>elems. readForOctree ops env Convert zCorrection inSrid las
                       = Returns (las\<lparr>Header := hdr\<rparr>, None, elems))
            \<or> readForOctree ops env Convert zCorrection inSrid las = Panics
            \<or> readForOctree ops env Convert zCorrection inSrid las = Exits"
    unfolding chain by (rule outcome_cases)
  assume "\<not> usePointIntensity las \<and> \<not> usePointUserdata las
            \<and> recLengths ! PointFormatID hdr ! 3 \<le> PointRecordLength hdr
            \<and> 1 \<le> NumCPU env
            \<and> (\<forall>c. \<exists>c'. Convert inSrid 4326 c = Inr c')"
  then show "\<exists>elems. readForOctree ops env Convert zCorrection inSrid las
                        = Returns (las\<lparr>Header := hdr\<rparr>, None, elems)
                    \<and> length (concat elems) = NumberPoints hdr"
    unfolding chain using assms(5) by (intro mismatch_all_parsed) simp_all
qed

theorem readForOctree_length_mismatch_witness:
  "Open long_env (fileName (newLasFile real_ops ''cloud.las'')) = None
   \<and> readHeader long_env = Inr long_header
   \<and> readVLRs long_env = None
   \<and> fileMode (newLasFile real_ops ''cloud.las'') \<noteq> ''rh''
   \<and> PointFormatID long_header < 4
   \<and> PointRecordLength long_header \<notin> set (recLengths ! PointFormatID long_header)
   \<and> \<not> usePointIntensity (newLasFile real_ops ''cloud.las'')
   \<and> \<not> usePointUserdata (newLasFile real_ops ''cloud.las'')
   \<and> recLengths ! PointFormatID long_header ! 3 \<le> PointRecordLength long_header
   \<and> 1 \<le> NumCPU long_env
   \<and> (\<forall>c. \<exists>c'. no_conversion 4326 4326 c = Inr c')
   \<and> (\<exists>elems. readForOctree real_ops long_env no_conversion no_correction 4326
                  (newLasFile real_ops ''cloud.las'')
                = Returns (newLasFile real_ops ''cloud.las''\<lparr>Header := long_header\<rparr>, None, elems)
              \<and> length (concat elems) = NumberPoints long_header)"
proof -
  have a: "Open long_env (fileName (newLasFile real_ops ''cloud.las'')) = None"
    by (simp add: long_env_def)
  have b: "readHeader long_env = Inr long_header" by (simp add: long_env_def)
  have c: "readVLRs long_env = None" by (simp add: long_env_def)
  have d: "fileMode (newLasFile real_ops ''cloud.las'') \<noteq> ''rh''" by (simp add: newLasFile_def)
  have e: "PointFormatID long_header < 4" by (simp add: long_header_def)
  have f: "PointRecordLength long_header \<notin> set (recLengths ! PointFormatID long_header)"
    by (simp add: long_header_def recLengths_def)
  have g: "\<not> usePointIntensity (newLasFile real_ops ''cloud.las'')"
    "\<not> usePointUserdata (newLasFile real_ops ''cloud.las'')"
    by (simp_all add: newLasFile_def)
  have h: "recLengths ! PointFormatID long_header ! 3 \<le> PointRecordLength long_header"
    by (simp add: long_header_def recLengths_def)
  have i: "1 \<le> NumCPU long_env" by (simp add: long_env_def)
  have j: "\<forall>c. \<exists>c'. no_conversion 4326 4326 c = Inr c'" by (simp add: no_conversion_def)
  from readForOctree_length_mismatch [OF a b c d e f, of real_ops no_conversion no_correction 4326]
  have "\<exists>elems. readForOctree real_ops long_env no_conversion no_correction 4326
                  (newLasFile real_ops ''cloud.las'')
                = Returns (newLasFile real_ops ''cloud.las''\<lparr>Header := long_header\<rparr>, None, elems)
              \<and> length (concat elems) = NumberPoints long_header"
    using g h i j by blast
  with a b c d e f g h i j show ?thesis by (intro conjI)
qed

lemma long_parse:
  "parseRecord real_ops no_conversion no_correction 4326 (newLasFile real_ops ''cloud.las''\<lparr>Header := long_header\<rparr>) long_record 0
   = Returns (NewOctElement 1 2 3 0 0 0 0 2)"
  by (simp add: parseRecord_def newLasFile_def long_header_def long_record_def Uint32_def Uint16_def
      index_def obind_def int32_def highByte_def real_ops_def no_conversion_def no_correction_def Let_def)

text \<open>
  A format 0 file with one record of 40 bytes: \<open>NewLasFileForTiler\<close> returns no error,
  and the loader has received the point.
\<close>

theorem NewLasFileForTiler_counterexample:
  "PointFormatID long_header = 0
   \<and> PointRecordLength long_header \<notin> {20, 18, 19, 17}
   \<and> NewLasFileForTiler real_ops long_env no_conversion ''cloud.las'' no_correction 4326
       = Returns (newLasFile real_ops ''cloud.las''\<lparr>Header := long_header\<rparr>, None,
                  [[NewOctElement 1 2 3 0 0 0 0 2]])"
proof -
  have 1: "readBuffer long_env 40 227 = (long_record, None)"
    by (simp add: readBuffer_def long_env_def long_record_def)
  have 2: "partitionPoints 1 4 = Returns [(0, 0)]"
    by (simp add: partitionPoints_def blocks.simps)
  have 3: "selectFlags (newLasFile real_ops ''cloud.las''\<lparr>Header := long_header\<rparr>)
      = Returns (newLasFile real_ops ''cloud.las''\<lparr>Header := long_header\<rparr>)"
    by (simp add: selectFlags_def long_header_def recLengths_def)
  show ?thesis
    using 1 2 3 long_parse
    by (simp add: NewLasFileForTiler_def readForOctree_def readPointsOctElem_def obind_def
        long_env_def long_header_def newLasFile_def blockIndices_def)
qed

text \<open>
  A record that is too short for the parse: format 0 with one record of 10 bytes.  The
  slice \<open>b[8:12]\<close> reaches past the buffer and the goroutine panics.
\<close>

lemma tiny_record_panics:
  "PointRecordLength tiny_header \<notin> set (recLengths ! PointFormatID tiny_header)
   \<and> NewLasFileForTiler real_ops tiny_env no_conversion ''cloud.las'' no_correction 4326 = Panics"
proof -
  let ?las = "newLasFile real_ops ''cloud.las''\<lparr>Header := tiny_header\<rparr>"
  have 1: "readBuffer tiny_env 10 227 = ([1, 0, 0, 0, 2, 0, 0, 0, 3, 0], None)"
    by (simp add: readBuffer_def tiny_env_def)
  have 2: "partitionPoints 1 4 = Returns [(0, 0)]"
    by (simp add: partitionPoints_def blocks.simps)
  have 3: "selectFlags ?las = Returns ?las"
    by (simp add: selectFlags_def tiny_header_def recLengths_def)
  have 4: "parseRecord real_ops no_conversion no_correction 4326 ?las [1, 0, 0, 0, 2, 0, 0, 0, 3, 0] 0 = Panics"
    by (simp add: parseRecord_def newLasFile_def tiny_header_def Uint32_def obind_def Let_def)
  show ?thesis
    using 1 2 3 4
    by (simp add: NewLasFileForTiler_def readForOctree_def readPointsOctElem_def obind_def
        tiny_env_def tiny_header_def newLasFile_def blockIndices_def recLengths_def)
qed

subsection \<open>The error of the bulk read\<close>

text \<open>The only error \<open>readPointsOctElem\<close> ever returns is \<open>nil\<close>.\<close>

lemma readPointsOctElem_no_error:
  "readPointsOctElem ops env Convert zCorrection inSrid las \<noteq> Returns (las', Some err, elems)"
  by (cases "readBuffer env (NumberPoints (Header las) * PointRecordLength (Header las))
                               (OffsetToPoints (Header las))")
     (simp add: readPointsOctElem_def Let_def obind_def split: outcome.splits)

text \<open>
  C2 at a failing read.  \<open>ReadAt\<close> fails with an I/O error and stores nothing;
  \<open>readPointsOctElem\<close> parses the record out of the zeroed buffer all the same and
  returns \<open>nil\<close>.
\<close>

theorem readPointsOctElem_drops_ReadAt_error:
  "ReadAt failing_env 20 227 = ([], Some IOError)
   \<and> readPointsOctElem real_ops failing_env no_conversion no_correction 4326
        (newLasFile real_ops ''cloud.las''\<lparr>Header := short_header\<rparr>)
      = Returns (newLasFile real_ops ''cloud.las''
                   \<lparr>Header := short_header, usePointIntensity := True, usePointUserdata := True\<rparr>,
                 None, [[NewOctElement 0 0 0 0 0 0 0 0]])"
proof -
  let ?las = "newLasFile real_ops ''cloud.las''\<lparr>Header := short_header\<rparr>"
  let ?las' = "newLasFile real_ops ''cloud.las''
                   \<lparr>Header := short_header, usePointIntensity := True, usePointUserdata := True\<rparr>"
  have 1: "readBuffer failing_env 20 227 = (replicate 20 0, Some IOError)"
    by (simp add: readBuffer_def failing_env_def)
  have 2: "partitionPoints 1 4 = Returns [(0, 0)]"
    by (simp add: partitionPoints_def blocks.simps)
  have 3: "selectFlags ?las = Returns ?las'"
    by (simp add: selectFlags_def short_header_def recLengths_def newLasFile_def)
  have 4: "parseRecord real_ops no_conversion no_correction 4326 ?las' (replicate 20 0) 0
             = Returns (NewOctElement 0 0 0 0 0 0 0 0)"
    by (simp add: parseRecord_def newLasFile_def short_header_def Uint32_def Uint16_def
        index_def obind_def int32_def highByte_def real_ops_def no_conversion_def no_correction_def Let_def)
  show ?thesis
    using 1 2 3 4
    by (simp add: readPointsOctElem_def obind_def failing_env_def short_header_def
        newLasFile_def blockIndices_def)
qed

section \<open>Properties of the tile writer\<close>

subsection \<open>Padding of the JSON headers\<close>

lemma length_bytesOf [simp]: "length (bytesOf s) = length s"
  by (simp add: bytesOf_def)

lemma pad_aux: "r < 4 \<Longrightarrow> (4 * q + r + (4 - r) mod 4) mod 4 = (0::nat)"
proof -
  assume "r < 4"
  then consider "r = 0" | "r = 1" | "r = 2" | "r = 3" by linarith
  then show ?thesis by cases simp_all
qed

lemma pad_to_four: "(l + (4 - l mod 4) mod 4) mod 4 = (0::nat)"
  using pad_aux [of "l mod 4" "l div 4"] by simp

lemma pad_less: "(4 - l mod 4) mod 4 < (4::nat)"
  by simp

lemma pad_nonzero: "l mod 4 \<noteq> 0 \<Longrightarrow> (4 - l mod 4) mod 4 = 4 - l mod (4::nat)"
  by simp

lemma length_featureTableText:
  "length (featureTableText ops x y z n k) = length (featureTableText ops x y z n 0) + k"
  by (simp add: featureTableText_def)

lemma length_batchTableText:
  "length (batchTableText n k) = length (batchTableText n 0) + k"
  by (simp add: batchTableText_def)

lemma generateFeatureTableJson_done:
  "length (featureTableText ops x y z n k) mod 4 = 0 \<Longrightarrow>
   generateFeatureTableJson ops x y z n k = Some (featureTableText ops x y z n k)"
  by (subst generateFeatureTableJson.simps) (simp add: Let_def)

lemma generateFeatureTableJson_again:
  "length (featureTableText ops x y z n k) mod 4 \<noteq> 0 \<Longrightarrow>
   generateFeatureTableJson ops x y z n k =
     generateFeatureTableJson ops x y z n (4 - length (featureTableText ops x y z n k) mod 4)"
  by (subst generateFeatureTableJson.simps) (simp add: Let_def)

lemma generateBatchTableJson_done:
  "length (batchTableText n k) mod 4 = 0 \<Longrightarrow>
   generateBatchTableJson n k = Some (batchTableText n k)"
  by (subst generateBatchTableJson.simps) (simp add: Let_def)

lemma generateBatchTableJson_again:
  "length (batchTableText n k) mod 4 \<noteq> 0 \<Longrightarrow>
   generateBatchTableJson n k = generateBatchTableJson n (4 - length (batchTableText n k) mod 4)"
  by (subst generateBatchTableJson.simps) (simp add: Let_def)

lemma generateFeatureTableJson_padding:
  "generateFeatureTableJson ops x y z n 0 =
     Some (featureTableText ops x y z n ((4 - length (featureTableText ops x y z n 0) mod 4) mod 4))"
proof -
  define l where "l = length (featureTableText ops x y z n 0)"
  define k where "k = (4 - l mod 4) mod 4"
  have "length (featureTableText ops x y z n k) = l + k"
    by (simp only: length_featureTableText [of ops x y z n k] l_def)
  then have len: "length (featureTableText ops x y z n k) mod 4 = 0"
    by (simp only: k_def pad_to_four)
  have fin: "generateFeatureTableJson ops x y z n k = Some (featureTableText ops x y z n k)"
    by (rule generateFeatureTableJson_done [OF len])
  have "generateFeatureTableJson ops x y z n 0 = Some (featureTableText ops x y z n k)"
  proof (cases "l mod 4 = 0")
    case True
    then have "k = 0" by (simp add: k_def)
    with fin show ?thesis by simp
  next
    case False
    then have k: "k = 4 - l mod 4" unfolding k_def by (rule pad_nonzero)
    have "length (featureTableText ops x y z n 0) mod 4 \<noteq> 0"
      using False unfolding l_def .
    from generateFeatureTableJson_again [OF this]
    have "generateFeatureTableJson ops x y z n 0 = generateFeatureTableJson ops x y z n k"
      by (simp only: k l_def)
    with fin show ?thesis by (simp only:)
  qed
  then show ?thesis by (simp only: k_def l_def)
qed

lemma generateBatchTableJson_padding:
  "generateBatchTableJson n 0 =
     Some (batchTableText n ((4 - length (batchTableText n 0) mod 4) mod 4))"
proof -
  define l where "l = length (batchTableText n 0)"
  define k where "k = (4 - l mod 4) mod 4"
  have "length (batchTableText n k) = l + k"
    by (simp only: length_batchTableText [of n k] l_def)
  then have len: "length (batchTableText n k) mod 4 = 0"
    by (simp only: k_def pad_to_four)
  have fin: "generateBatchTableJson n k = Some (batchTableText n k)"
    by (rule generateBatchTableJson_done [OF len])
  have "generateBatchTableJson n 0 = Some (batchTableText n k)"
  proof (cases "l mod 4 = 0")
    case True
    then have "k = 0" by (simp add: k_def)
    with fin show ?thesis by simp
  next
    case False
    then have k: "k = 4 - l mod 4" unfolding k_def by (rule pad_nonzero)
    have "length (batchTableText n 0) mod 4 \<noteq> 0"
      using False unfolding l_def .
    from generateBatchTableJson_again [OF this]
    have "generateBatchTableJson n 0 = generateBatchTableJson n k"
      by (simp only: k l_def)
    with fin show ?thesis by (simp only:)
  qed
  then show ?thesis by (simp only: k_def l_def)
qed

lemma featureTable_length_dvd:
  assumes "generateFeatureTableJson ops x y z n 0 = Some ft"
  shows "4 dvd length ft"
proof -
  define l where "l = length (featureTableText ops x y z n 0)"
  have "ft = featureTableText ops x y z n ((4 - l mod 4) mod 4)"
    using assms unfolding generateFeatureTableJson_padding l_def by simp
  then have "length ft = l + (4 - l mod 4) mod 4"
    unfolding l_def by (simp only: length_featureTableText [of ops x y z n "(4 - _ mod 4) mod 4"])
  then have "length ft mod 4 = 0" by (simp only: pad_to_four)
  then show ?thesis by (simp only: dvd_eq_mod_eq_0)
qed

lemma batchTable_length_dvd:
  assumes "generateBatchTableJson n 0 = Some bt"
  shows "4 dvd length bt"
proof -
  define l where "l = length (batchTableText n 0)"
  have "bt = batchTableText n ((4 - l mod 4) mod 4)"
    using assms unfolding generateBatchTableJson_padding l_def by simp
  then have "length bt = l + (4 - l mod 4) mod 4"
    unfolding l_def by (simp only: length_batchTableText [of n "(4 - _ mod 4) mod 4"])
  then have "length bt mod 4 = 0" by (simp only: pad_to_four)
  then show ?thesis by (simp only: dvd_eq_mod_eq_0)
qed

text \<open>
  C4, as the code has it.  Called with \<open>spaceNo = 0\<close>, both generators return, and the
  length of what they return is a multiple of 4.  The batch table is its text followed by
  \<open>j < 4\<close> spaces.  The feature table is not padded with spaces: \<open>k < 4\<close> characters
  \<open>0\<close> are put directly behind the first component of \<open>RTC_CENTER\<close>, and nothing else
  of the text changes.
\<close>

theorem json_headers_padding:
  "\<exists>k j. k < 4 \<and> j < 4
     \<and> generateFeatureTableJson ops x y z N 0 =
         Some (''{\"POINTS_LENGTH\":'' @ Itoa (sint N) @ '',\"RTC_CENTER\":['' @ Sprintf_f ops x
               @ replicate k CHR ''0''
               @ '','' @ Sprintf_f ops y @ '','' @ Sprintf_f ops z
               @ ''],\"POSITION\":{\"byteOffset\":0},\"RGB\":{\"byteOffset\":''
               @ Itoa (sint (N * 12)) @ ''}}'')
     \<and> 4 dvd length (featureTableText ops x y z N k)
     \<and> generateBatchTableJson N 0 = Some (batchTableText N 0 @ replicate j CHR '' '')
     \<and> 4 dvd length (batchTableText N 0 @ replicate j CHR '' '')"
proof -
  define k where "k = (4 - length (featureTableText ops x y z N 0) mod 4) mod 4"
  define j where "j = (4 - length (batchTableText N 0) mod 4) mod 4"
  have f: "generateFeatureTableJson ops x y z N 0 = Some (featureTableText ops x y z N k)"
    unfolding k_def by (rule generateFeatureTableJson_padding)
  have b: "generateBatchTableJson N 0 = Some (batchTableText N j)"
    unfolding j_def by (rule generateBatchTableJson_padding)
  have b': "batchTableText N j = batchTableText N 0 @ replicate j CHR '' ''"
    by (simp add: batchTableText_def)
  have k4: "k < 4" and j4: "j < 4" by (simp_all add: k_def j_def)
  have t: "featureTableText ops x y z N k =
         ''{\"POINTS_LENGTH\":'' @ Itoa (sint N) @ '',\"RTC_CENTER\":['' @ Sprintf_f ops x
               @ replicate k CHR ''0''
               @ '','' @ Sprintf_f ops y @ '','' @ Sprintf_f ops z
               @ ''],\"POSITION\":{\"byteOffset\":0},\"RGB\":{\"byteOffset\":''
               @ Itoa (sint (N * 12)) @ ''}}''"
    by (simp add: featureTableText_def)
  have f': "generateFeatureTableJson ops x y z N 0 =
         Some (''{\"POINTS_LENGTH\":'' @ Itoa (sint N) @ '',\"RTC_CENTER\":['' @ Sprintf_f ops x
               @ replicate k CHR ''0''
               @ '','' @ Sprintf_f ops y @ '','' @ Sprintf_f ops z
               @ ''],\"POSITION\":{\"byteOffset\":0},\"RGB\":{\"byteOffset\":''
               @ Itoa (sint (N * 12)) @ ''}}'')"
    using f by (simp only: t)
  have d1: "4 dvd length (featureTableText ops x y z N k)"
    by (rule featureTable_length_dvd [OF f])
  have b2: "generateBatchTableJson N 0 = Some (batchTableText N 0 @ replicate j CHR '' '')"
    using b by (simp only: b')
  have d2: "4 dvd length (batchTableText N 0 @ replicate j CHR '' '')"
    using batchTable_length_dvd [OF b] by (simp only: b')
  show ?thesis
    by (intro exI [of _ k] exI [of _ j] conjI k4 j4 f' d1 b2 d2)
qed

subsection \<open>The example tile\<close>

lemma Itoa_1: "Itoa 1 = ''1''" by (simp add: Itoa_def decimalDigit_def)
lemma Itoa_12: "Itoa 12 = ''12''" by (simp add: Itoa_def decimalDigit_def)

lemma featureTableText_example:
  "featureTableText real_ops 1 1 1 1 k =
     ''{\"POINTS_LENGTH\":1,\"RTC_CENTER\":[1.000000'' @ replicate k CHR ''0'' @
     '',1.000000,1.000000],\"POSITION\":{\"byteOffset\":0},\"RGB\":{\"byteOffset\":12}}''"
  unfolding featureTableText_def by (simp add: real_ops_def Itoa_1 Itoa_12)

lemma featureTableText_example_length: "length (featureTableText real_ops 1 1 1 1 0) = 113"
  unfolding featureTableText_example by simp

lemma featureTable_example:
  "generateFeatureTableJson real_ops 1 1 1 1 0 =
     Some ''{\"POINTS_LENGTH\":1,\"RTC_CENTER\":[1.000000000,1.000000,1.000000],\"POSITION\":{\"byteOffset\":0},\"RGB\":{\"byteOffset\":12}}''"
proof -
  have "(4 - length (featureTableText real_ops 1 1 1 1 0) mod 4) mod 4 = 3"
    unfolding featureTableText_example_length by simp
  then have "generateFeatureTableJson real_ops 1 1 1 1 0 = Some (featureTableText real_ops 1 1 1 1 3)"
    using generateFeatureTableJson_padding [of real_ops 1 1 1 1] by (simp only:)
  then show ?thesis
    unfolding featureTableText_example by (simp add: numeral_3_eq_3)
qed

lemma batchTableText_example:
  "batchTableText 1 0 = ''{\"INTENSITY\":{\"byteOffset\":0, \"componentType\":\"UNSIGNED_BYTE\", \"type\":\"SCALAR\"},\"CLASSIFICATION\":{\"byteOffset\":1, \"componentType\":\"UNSIGNED_BYTE\", \"type\":\"SCALAR\"}}''"
  unfolding batchTableText_def by (simp add: Itoa_1)

lemma batchTable_example:
  "generateBatchTableJson 1 0 = Some ''{\"INTENSITY\":{\"byteOffset\":0, \"componentType\":\"UNSIGNED_BYTE\", \"type\":\"SCALAR\"},\"CLASSIFICATION\":{\"byteOffset\":1, \"componentType\":\"UNSIGNED_BYTE\", \"type\":\"SCALAR\"}}''"
proof -
  have "length (batchTableText 1 0) mod 4 = 0"
    unfolding batchTableText_example by simp
  then have "generateBatchTableJson 1 0 = Some (batchTableText 1 0)"
    by (rule generateBatchTableJson_done)
  then show ?thesis unfolding batchTableText_example .
qed

lemma root_items: "Items (tree_heap 0) = [point 1 1 1]"
  by (simp add: tree_heap_def)

lemma one_point_pntsContent:
  "pntsContent real_ops tree_env 4326 [point 1 1 1] = Some (Inr one_point_pnts)"
proof -
  have c: "convertItems tree_env 4326 [point 1 1 1] = Inr [(1, 1, 1)]"
    by (simp add: tree_env_def point_def NewOctElement_def)
  have a: "averages real_ops [(1, 1, 1)] = (1, 1, 1)"
    by (simp add: averages_def real_ops_def)
  have p: "ConvertTruncateFloat64ToFloat32ByteArray real_ops (normalized real_ops (1, 1, 1) [(1, 1, 1)])
             = [0, 0, 0, 0, 0, 0, 0, 0, 0, 0, 0, 0]"
    by (simp add: ConvertTruncateFloat64ToFloat32ByteArray_def normalized_def real_ops_def le32_def)
  have i: "itemColors [point 1 1 1] = [10, 20, 30]"
    "itemIntensities [point 1 1 1] = [5]" "itemClassifications [point 1 1 1] = [2]"
    by (simp_all add: itemColors_def itemIntensities_def itemClassifications_def point_def NewOctElement_def)
  have l: "(word_of_nat (length [point 1 1 1]) :: go_int) = 1" by simp
  show ?thesis
    unfolding pntsContent_def Let_def l c
    by (simp only: a p i featureTable_example batchTable_example one_point_pnts_def
        sum.case prod.case option.case)
qed

lemma root_written:
  "writeBinaryPnts real_ops tree_env tree_heap root_unit empty_fs = Some (root_fs, None)"
proof -
  have f: "createBaseFolder tree_env empty_fs ''out'' = (\<lparr>dirs = {''out''}, files = (\<lambda>p. None)\<rparr>, None)"
    by (simp add: createBaseFolder_def IsNotExist_def osMkdirAll_def empty_fs_def tree_env_def)
  have j: "Join tree_env ''out'' ''content.pnts'' = ''out/content.pnts''"
    by (simp add: tree_env_def)
  have w: "WriteFile tree_env ''out/content.pnts'' = None"
    by (simp add: tree_env_def)
  have u: "BasePath root_unit = ''out''" "OctNode root_unit = 0" "Srid (Opts root_unit) = 4326"
    by (simp_all add: root_unit_def)
  show ?thesis
    unfolding writeBinaryPnts_def Let_def u f j root_items one_point_pntsContent
    by (simp add: osWriteFile_def w root_fs_def)
qed

text \<open>
  One point and the centre (1, 1, 1): the text has 113 characters, and the feature table
  returned carries three more zeros behind \<open>1.000000\<close> instead of three closing spaces.
\<close>

theorem generateFeatureTableJson_counterexample:
  "generateFeatureTableJson real_ops 1 1 1 1 0 =
     Some ''{\"POINTS_LENGTH\":1,\"RTC_CENTER\":[1.000000000,1.000000,1.000000],\"POSITION\":{\"byteOffset\":0},\"RGB\":{\"byteOffset\":12}}''
   \<and> generateFeatureTableJson real_ops 1 1 1 1 0 \<noteq>
     Some (featureTableText real_ops 1 1 1 1 0 @ replicate 3 CHR '' '')"
  unfolding featureTable_example featureTableText_example by simp

subsection \<open>The layout of content.pnts\<close>

lemma length_le32 [simp]: "length (le32 w) = 4"
  by (simp add: le32_def)

lemma length_ConvertIntToByteArray [simp]: "length (ConvertIntToByteArray i) = 4"
  by (simp add: ConvertIntToByteArray_def)

lemma length_positionBytes [simp]:
  "length (ConvertTruncateFloat64ToFloat32ByteArray ops coords) = 4 * length coords"
  by (induction coords) (simp_all add: ConvertTruncateFloat64ToFloat32ByteArray_def)

lemma length_normalized [simp]: "length (normalized ops avg coords) = 3 * length coords"
  by (induction coords) (auto simp: normalized_def split: prod.splits)

lemma length_itemColors [simp]: "length (itemColors items) = 3 * length items"
  by (induction items) (simp_all add: itemColors_def)

lemma length_itemIntensities [simp]: "length (itemIntensities items) = length items"
  by (simp add: itemIntensities_def)

lemma length_itemClassifications [simp]: "length (itemClassifications items) = length items"
  by (simp add: itemClassifications_def)

lemma convertItems_length:
  "convertItems env srid items = Inr coords \<Longrightarrow> length coords = length items"
  by (induction items arbitrary: coords) (auto split: sum.splits)

lemma length_magic: "length (bytesOf ''pnts'') = 4"
  by simp

lemma outputByte_fields:
  fixes ft bt :: string and pos col ints cls :: "byte list"
  defines "out \<equiv> outputByte ft pos col bt ints cls"
  shows "take 4 (drop 8 out) = ConvertIntToByteArray (int (28 + length ft + length pos + length col))"
    and "take 4 (drop 12 out) = ConvertIntToByteArray (int (length ft))"
    and "take 4 (drop 16 out) = ConvertIntToByteArray (int (length pos + length col))"
    and "take 4 (drop 20 out) = ConvertIntToByteArray (int (length bt))"
    and "take 4 (drop 24 out) = ConvertIntToByteArray (int (length ints + length cls))"
    and "take (length ft) (drop 28 out) = bytesOf ft"
  unfolding out_def outputByte_def Let_def by simp_all

lemma unat_drop_bit_div: "unat (drop_bit n w) = unat w div 2 ^ n"
proof -
  have "unat (drop_bit n w) = drop_bit n (unat w)" by (rule unat_drop_bit_eq)
  also have "\<dots> = unat w div 2 ^ n" by (rule drop_bit_eq_div)
  finally show ?thesis .
qed

lemma Uint32_le32:
  assumes "take 4 (drop off out) = le32 w"
  shows "Uint32 out off = Returns (unat w)"
proof -
  have len: "off + 4 \<le> length out"
  proof (rule ccontr)
    assume "\<not> off + 4 \<le> length out"
    then have "length (take 4 (drop off out)) < 4" by simp
    then show False using assms by simp
  qed
  have nth: "out ! (off + i) = le32 w ! i" if "i < 4" for i
  proof -
    have "le32 w ! i = take 4 (drop off out) ! i" using assms by simp
    also have "\<dots> = out ! (off + i)" using that len by simp
    finally show ?thesis by simp
  qed
  have b0: "out ! off = ucast w" using nth [of 0] by (simp add: le32_def)
  have b1: "out ! (off + 1) = ucast (drop_bit 8 w)" using nth [of 1] by (simp add: le32_def)
  have b2: "out ! (off + 2) = ucast (drop_bit 16 w)" using nth [of 2] by (simp add: le32_def)
  have b3: "out ! (off + 3) = ucast (drop_bit 24 w)" using nth [of 3] by (simp add: le32_def)
  define u where "u = unat w"
  have u: "u < 2 ^ 32" unfolding u_def using unsigned_less [of w, where 'a = nat] by simp
  have c0: "unat (ucast w :: byte) = u mod 256"
    by (simp add: u_def unsigned_ucast_eq take_bit_eq_mod)
  have c1: "unat (ucast (drop_bit 8 w) :: byte) = u div 256 mod 256"
    by (simp add: u_def unsigned_ucast_eq unat_drop_bit_div take_bit_eq_mod)
  have c2: "unat (ucast (drop_bit 16 w) :: byte) = u div 65536 mod 256"
    by (simp add: u_def unsigned_ucast_eq unat_drop_bit_div take_bit_eq_mod)
  have c3: "unat (ucast (drop_bit 24 w) :: byte) = u div 16777216"
  proof -
    have "u div 16777216 < 256" using u by simp
    then show ?thesis
      by (simp add: u_def unsigned_ucast_eq unat_drop_bit_div take_bit_eq_mod)
  qed
  have e2: "u div 256 div 256 = u div 65536" by (simp add: div_mult2_eq [symmetric])
  have e3: "u div 65536 div 256 = u div 16777216" by (simp add: div_mult2_eq [symmetric])
  have d1: "u = 256 * (u div 256) + u mod 256" by simp
  have d2: "u div 256 = 256 * (u div 65536) + u div 256 mod 256"
    using div_mult_mod_eq [of "u div 256" 256] unfolding e2 by simp
  have d3: "u div 65536 = 256 * (u div 16777216) + u div 65536 mod 256"
    using div_mult_mod_eq [of "u div 65536" 256] unfolding e3 by simp
  have s: "u mod 256 + 256 * (u div 256 mod 256) + 65536 * (u div 65536 mod 256)
          + 16777216 * (u div 16777216) = u"
    using d1 d2 d3 by linarith
  have "Uint32 out off = Returns (u mod 256 + 256 * (u div 256 mod 256)
          + 65536 * (u div 65536 mod 256) + 16777216 * (u div 16777216))"
    unfolding Uint32_def b0 b1 b2 b3 c0 c1 c2 c3 using len by simp
  then have "Uint32 out off = Returns u" by (simp only: s)
  then show ?thesis by (simp only: u_def)
qed

lemma Uint32_ConvertIntToByteArray:
  assumes "take 4 (drop off out) = ConvertIntToByteArray (int n)" and "n < 2 ^ 32"
  shows "Uint32 out off = Returns n"
proof -
  have "unat (word_of_int (int n) :: 32 word) = n"
    using assms(2) by (simp add: unat_of_nat)
  then show ?thesis
    using Uint32_le32 [of off out "word_of_int (int n)"] assms(1)
    by (simp add: ConvertIntToByteArray_def)
qed

lemma pntsContent_success:
  assumes "pntsContent ops env srid items = Some (Inr out)"
  shows "\<exists>coords ft bt.
           convertItems env srid items = Inr coords
         \<and> (case averages ops coords of
              (avgX, avgY, avgZ) \<Rightarrow> generateFeatureTableJson ops avgX avgY avgZ (word_of_nat (length items)) 0) = Some ft
         \<and> generateBatchTableJson (word_of_nat (length items)) 0 = Some bt
         \<and> out = outputByte ft
                   (ConvertTruncateFloat64ToFloat32ByteArray ops (normalized ops (averages ops coords) coords))
                   (itemColors items) bt (itemIntensities items) (itemClassifications items)"
  using assms unfolding pntsContent_def Let_def
  by (auto split: sum.splits prod.splits option.splits)

lemma writeBinaryPnts_success:
  assumes "writeBinaryPnts ops env h workUnit s = Some (s', None)"
  shows "\<exists>out. pntsContent ops env (Srid (Opts workUnit)) (Items (h (OctNode workUnit))) = Some (Inr out)
             \<and> files s' (Join env (BasePath workUnit) ''content.pnts'') = Some out"
  using assms unfolding writeBinaryPnts_def Let_def osWriteFile_def
  by (auto split: sum.splits prod.splits option.splits)

lemma writeBinaryPnts_parts:
  assumes "writeBinaryPnts ops env h workUnit s = Some (s', None)"
  shows "\<exists>coords ft bt.
           convertItems env (Srid (Opts workUnit)) (Items (h (OctNode workUnit))) = Inr coords
         \<and> (case averages ops coords of
              (avgX, avgY, avgZ) \<Rightarrow>
                generateFeatureTableJson ops avgX avgY avgZ (word_of_nat (length (Items (h (OctNode workUnit))))) 0) = Some ft
         \<and> generateBatchTableJson (word_of_nat (length (Items (h (OctNode workUnit))))) 0 = Some bt
         \<and> files s' (Join env (BasePath workUnit) ''content.pnts'') =
             Some (outputByte ft
                   (ConvertTruncateFloat64ToFloat32ByteArray ops (normalized ops (averages ops coords) coords))
                   (itemColors (Items (h (OctNode workUnit)))) bt
                   (itemIntensities (Items (h (OctNode workUnit))))
                   (itemClassifications (Items (h (OctNode workUnit)))))"
proof -
  obtain out where
    "pntsContent ops env (Srid (Opts workUnit)) (Items (h (OctNode workUnit))) = Some (Inr out)"
    and f: "files s' (Join env (BasePath workUnit) ''content.pnts'') = Some out"
    using writeBinaryPnts_success [OF assms] by blast
  from pntsContent_success [OF this(1)] f show ?thesis by blast
qed

text \<open>
  C6.  When \<open>writeBinaryPnts\<close> succeeds on a node with \<open>N\<close> items, the file it has
  written holds the feature table JSON from byte 28 on, and the four bytes at offset 8 are
  the encoding of \<open>28 + featureTableJSONlen + 12 * N + 3 * N\<close>; read back as a
  little-endian \<open>u32\<close> they give that number whenever it fits into 32 bits.
\<close>

theorem writeBinaryPnts_byteLength:
  assumes "writeBinaryPnts ops env h workUnit s = Some (s', None)"
  shows "\<exists>out coords featureTableStr.
           files s' (Join env (BasePath workUnit) ''content.pnts'') = Some out
         \<and> convertItems env (Srid (Opts workUnit)) (Items (h (OctNode workUnit))) = Inr coords
         \<and> (case averages ops coords of
              (avgX, avgY, avgZ) \<Rightarrow>
                generateFeatureTableJson ops avgX avgY avgZ (word_of_nat (length (Items (h (OctNode workUnit))))) 0)
             = Some featureTableStr
         \<and> take (length featureTableStr) (drop 28 out) = bytesOf featureTableStr
         \<and> take 4 (drop 8 out) =
             ConvertIntToByteArray
               (int (28 + length featureTableStr + 12 * length (Items (h (OctNode workUnit)))
                     + 3 * length (Items (h (OctNode workUnit)))))
         \<and> (28 + length featureTableStr + 12 * length (Items (h (OctNode workUnit)))
                + 3 * length (Items (h (OctNode workUnit))) < 2 ^ 32 \<longrightarrow>
             Uint32 out 8 =
               Returns (28 + length featureTableStr + 12 * length (Items (h (OctNode workUnit)))
                        + 3 * length (Items (h (OctNode workUnit)))))"
proof -
  let ?items = "Items (h (OctNode workUnit))"
  obtain coords ft bt where
    c: "convertItems env (Srid (Opts workUnit)) ?items = Inr coords"
    and g: "(case averages ops coords of
              (avgX, avgY, avgZ) \<Rightarrow> generateFeatureTableJson ops avgX avgY avgZ (word_of_nat (length ?items)) 0) = Some ft"
    and f: "files s' (Join env (BasePath workUnit) ''content.pnts'') =
             Some (outputByte ft
                   (ConvertTruncateFloat64ToFloat32ByteArray ops (normalized ops (averages ops coords) coords))
                   (itemColors ?items) bt (itemIntensities ?items) (itemClassifications ?items))"
    using writeBinaryPnts_parts [OF assms] by blast
  define pos where
    "pos = ConvertTruncateFloat64ToFloat32ByteArray ops (normalized ops (averages ops coords) coords)"
  define out where
    "out = outputByte ft pos (itemColors ?items) bt (itemIntensities ?items) (itemClassifications ?items)"
  have n: "length coords = length ?items" by (rule convertItems_length [OF c])
  have len: "28 + length ft + length pos + length (itemColors ?items)
               = 28 + length ft + 12 * length ?items + 3 * length ?items"
    by (simp add: pos_def n)
  have f': "files s' (Join env (BasePath workUnit) ''content.pnts'') = Some out"
    using f by (simp only: out_def pos_def)
  have t: "take (length ft) (drop 28 out) = bytesOf ft"
    unfolding out_def by (rule outputByte_fields(6))
  have b: "take 4 (drop 8 out) =
             ConvertIntToByteArray (int (28 + length ft + 12 * length ?items + 3 * length ?items))"
    unfolding out_def using outputByte_fields(1) [of ft pos "itemColors ?items"] by (simp only: len)
  have d: "28 + length ft + 12 * length ?items + 3 * length ?items < 2 ^ 32 \<longrightarrow>
           Uint32 out 8 = Returns (28 + length ft + 12 * length ?items + 3 * length ?items)"
    using Uint32_ConvertIntToByteArray [OF b] by blast
  show ?thesis
    by (intro exI [of _ out] exI [of _ coords] exI [of _ ft] conjI f' c g t b d)
qed

theorem writeBinaryPnts_byteLength_witness:
  "writeBinaryPnts real_ops tree_env tree_heap root_unit empty_fs = Some (root_fs, None)
   \<and> (\<exists>out coords featureTableStr.
           files root_fs (Join tree_env (BasePath root_unit) ''content.pnts'') = Some out
         \<and> convertItems tree_env (Srid (Opts root_unit)) (Items (tree_heap (OctNode root_unit))) = Inr coords
         \<and> (case averages real_ops coords of
              (avgX, avgY, avgZ) \<Rightarrow>
                generateFeatureTableJson real_ops avgX avgY avgZ
                  (word_of_nat (length (Items (tree_heap (OctNode root_unit))))) 0)
             = Some featureTableStr
         \<and> take (length featureTableStr) (drop 28 out) = bytesOf featureTableStr
         \<and> take 4 (drop 8 out) =
             ConvertIntToByteArray
               (int (28 + length featureTableStr + 12 * length (Items (tree_heap (OctNode root_unit)))
                     + 3 * length (Items (tree_heap (OctNode root_unit)))))
         \<and> (28 + length featureTableStr + 12 * length (Items (tree_heap (OctNode root_unit)))
                + 3 * length (Items (tree_heap (OctNode root_unit))) < 2 ^ 32 \<longrightarrow>
             Uint32 out 8 =
               Returns (28 + length featureTableStr + 12 * length (Items (tree_heap (OctNode root_unit)))
                        + 3 * length (Items (tree_heap (OctNode root_unit))))))"
  by (rule conjI [OF root_written writeBinaryPnts_byteLength [OF root_written]])

text \<open>
  C3, as the code has it.  In the file that \<open>writeBinaryPnts\<close> has written for a node
  with \<open>N\<close> items, the fields at offsets 12 and 20 hold the lengths of the two JSON
  headers, which are multiples of 4; the fields at offsets 16 and 24 hold \<open>15 * N\<close>
  (positions and colours) and \<open>2 * N\<close> (intensities and classifications), which are
  not padded.
\<close>

theorem writeBinaryPnts_length_fields:
  assumes "writeBinaryPnts ops env h workUnit s = Some (s', None)"
  shows "\<exists>out coords featureTableStr batchTableStr.
           files s' (Join env (BasePath workUnit) ''content.pnts'') = Some out
         \<and> convertItems env (Srid (Opts workUnit)) (Items (h (OctNode workUnit))) = Inr coords
         \<and> (case averages ops coords of
              (avgX, avgY, avgZ) \<Rightarrow>
                generateFeatureTableJson ops avgX avgY avgZ (word_of_nat (length (Items (h (OctNode workUnit))))) 0)
             = Some featureTableStr
         \<and> generateBatchTableJson (word_of_nat (length (Items (h (OctNode workUnit))))) 0 = Some batchTableStr
         \<and> take 4 (drop 12 out) = ConvertIntToByteArray (int (length featureTableStr))
         \<and> 4 dvd length featureTableStr
         \<and> take 4 (drop 16 out) =
             ConvertIntToByteArray (int (15 * length (Items (h (OctNode workUnit)))))
         \<and> take 4 (drop 20 out) = ConvertIntToByteArray (int (length batchTableStr))
         \<and> 4 dvd length batchTableStr
         \<and> take 4 (drop 24 out) =
             ConvertIntToByteArray (int (2 * length (Items (h (OctNode workUnit)))))"
proof -
  let ?items = "Items (h (OctNode workUnit))"
  obtain coords ft bt where
    c: "convertItems env (Srid (Opts workUnit)) ?items = Inr coords"
    and g: "(case averages ops coords of
              (avgX, avgY, avgZ) \<Rightarrow> generateFeatureTableJson ops avgX avgY avgZ (word_of_nat (length ?items)) 0) = Some ft"
    and gb: "generateBatchTableJson (word_of_nat (length ?items)) 0 = Some bt"
    and f: "files s' (Join env (BasePath workUnit) ''content.pnts'') =
             Some (outputByte ft
                   (ConvertTruncateFloat64ToFloat32ByteArray ops (normalized ops (averages ops coords) coords))
                   (itemColors ?items) bt (itemIntensities ?items) (itemClassifications ?items))"
    using writeBinaryPnts_parts [OF assms] by blast
  define pos where
    "pos = ConvertTruncateFloat64ToFloat32ByteArray ops (normalized ops (averages ops coords) coords)"
  define out where
    "out = outputByte ft pos (itemColors ?items) bt (itemIntensities ?items) (itemClassifications ?items)"
  have n: "length coords = length ?items" by (rule convertItems_length [OF c])
  have l1: "length pos + length (itemColors ?items) = 15 * length ?items"
    by (simp add: pos_def n)
  have l2: "length (itemIntensities ?items) + length (itemClassifications ?items) = 2 * length ?items"
    by simp
  have f': "files s' (Join env (BasePath workUnit) ''content.pnts'') = Some out"
    using f by (simp only: out_def pos_def)
  have d1: "4 dvd length ft"
  proof (cases "averages ops coords")
    case (fields avgX avgY avgZ)
    with g have "generateFeatureTableJson ops avgX avgY avgZ (word_of_nat (length ?items)) 0 = Some ft" by simp
    then show ?thesis by (rule featureTable_length_dvd)
  qed
  have d2: "4 dvd length bt" by (rule batchTable_length_dvd [OF gb])
  have b12: "take 4 (drop 12 out) = ConvertIntToByteArray (int (length ft))"
    unfolding out_def by (rule outputByte_fields(2))
  have b16: "take 4 (drop 16 out) = ConvertIntToByteArray (int (15 * length ?items))"
    unfolding out_def
    using outputByte_fields(3) [of ft pos "itemColors ?items"] by (simp only: l1)
  have b20: "take 4 (drop 20 out) = ConvertIntToByteArray (int (length bt))"
    unfolding out_def by (rule outputByte_fields(4))
  have b24: "take 4 (drop 24 out) = ConvertIntToByteArray (int (2 * length ?items))"
    unfolding out_def
    using outputByte_fields(5) [of ft pos "itemColors ?items" bt "itemIntensities ?items"
        "itemClassifications ?items"]
    by (simp only: l2)
  show ?thesis
    by (intro exI [of _ out] exI [of _ coords] exI [of _ ft] exI [of _ bt] conjI
        f' c g gb b12 d1 b16 b20 d2 b24)
qed

theorem writeBinaryPnts_length_fields_witness:
  "writeBinaryPnts real_ops tree_env tree_heap root_unit empty_fs = Some (root_fs, None)
   \<and> (\<exists>out coords featureTableStr batchTableStr.
           files root_fs (Join tree_env (BasePath root_unit) ''content.pnts'') = Some out
         \<and> convertItems tree_env (Srid (Opts root_unit)) (Items (tree_heap (OctNode root_unit))) = Inr coords
         \<and> (case averages real_ops coords of
              (avgX, avgY, avgZ) \<Rightarrow>
                generateFeatureTableJson real_ops avgX avgY avgZ
                  (word_of_nat (length (Items (tree_heap (OctNode root_unit))))) 0)
             = Some featureTableStr
         \<and> generateBatchTableJson (word_of_nat (length (Items (tree_heap (OctNode root_unit))))) 0 = Some batchTableStr
         \<and> take 4 (drop 12 out) = ConvertIntToByteArray (int (length featureTableStr))
         \<and> 4 dvd length featureTableStr
         \<and> take 4 (drop 16 out) =
             ConvertIntToByteArray (int (15 * length (Items (tree_heap (OctNode root_unit)))))
         \<and> take 4 (drop 20 out) = ConvertIntToByteArray (int (length batchTableStr))
         \<and> 4 dvd length batchTableStr
         \<and> take 4 (drop 24 out) =
             ConvertIntToByteArray (int (2 * length (Items (tree_heap (OctNode root_unit))))))"
  by (rule conjI [OF root_written writeBinaryPnts_length_fields [OF root_written]])

text \<open>
  The tile of the root holds one point: its feature table binary has 15 bytes and its
  batch table binary 2 bytes, and neither is a multiple of 4.
\<close>

theorem writeBinaryPnts_length_fields_counterexample:
  "writeBinaryPnts real_ops tree_env tree_heap root_unit empty_fs = Some (root_fs, None)
   \<and> files root_fs ''out/content.pnts'' = Some one_point_pnts
   \<and> Uint32 one_point_pnts 16 = Returns 15
   \<and> Uint32 one_point_pnts 24 = Returns 2
   \<and> \<not> 4 dvd (15::nat) \<and> \<not> 4 dvd (2::nat)"
proof -
  have f: "files root_fs ''out/content.pnts'' = Some one_point_pnts"
    by (simp add: root_fs_def)
  have "take 4 (drop 16 one_point_pnts) = ConvertIntToByteArray (int 15)"
    unfolding one_point_pnts_def by (subst outputByte_fields(3)) simp
  then have a: "Uint32 one_point_pnts 16 = Returns 15"
    by (rule Uint32_ConvertIntToByteArray) simp
  have "take 4 (drop 24 one_point_pnts) = ConvertIntToByteArray (int 2)"
    unfolding one_point_pnts_def by (subst outputByte_fields(5)) simp
  then have b: "Uint32 one_point_pnts 24 = Returns 2"
    by (rule Uint32_ConvertIntToByteArray) simp
  show ?thesis using root_written f a b by simp
qed
subsection \<open>A node without items\<close>

text \<open>
  With no items the loops of \<open>writeBinaryPnts\<close> do nothing, no conversion can fail,
  and the content of the file is made from the quotient of the zero sum by
  \<open>float64(0)\<close>, which is put into \<open>RTC_CENTER\<close> three times, whatever the
  operations on \<open>float64\<close> compute.
\<close>

lemma pntsContent_no_items:
  "\<exists>ft bt.
      generateFeatureTableJson ops (fdiv ops (of_int64 ops 0) (of_int64 ops 0))
        (fdiv ops (of_int64 ops 0) (of_int64 ops 0)) (fdiv ops (of_int64 ops 0) (of_int64 ops 0)) 0 0 = Some ft
    \<and> generateBatchTableJson 0 0 = Some bt
    \<and> pntsContent ops env srid [] = Some (Inr (outputByte ft [] [] bt [] []))"
proof -
  let ?q = "fdiv ops (of_int64 ops 0) (of_int64 ops 0)"
  obtain ft where ft: "generateFeatureTableJson ops ?q ?q ?q 0 0 = Some ft"
    using generateFeatureTableJson_padding [of ops ?q ?q ?q 0] by blast
  obtain bt where bt: "generateBatchTableJson 0 0 = Some bt"
    using generateBatchTableJson_padding [of 0] by blast
  have a: "averages ops [] = (?q, ?q, ?q)" by (simp add: averages_def Let_def)
  have "pntsContent ops env srid [] = Some (Inr (outputByte ft [] [] bt [] []))"
    unfolding pntsContent_def Let_def
    by (simp add: a ft bt normalized_def ConvertTruncateFloat64ToFloat32ByteArray_def
        itemColors_def itemIntensities_def itemClassifications_def)
  with ft bt show ?thesis by blast
qed

lemma averages_nan: "averages nan_ops [] = (None, None, None)"
  by (simp add: averages_def nan_ops_def Let_def)

lemma Itoa_0: "Itoa 0 = ''0''" by (simp add: Itoa_def decimalDigit_def)

lemma featureTableText_nan:
  "featureTableText nan_ops None None None 0 k =
     ''{\"POINTS_LENGTH\":0,\"RTC_CENTER\":[NaN'' @ replicate k CHR ''0'' @
     '',NaN,NaN],\"POSITION\":{\"byteOffset\":0},\"RGB\":{\"byteOffset\":0}}''"
  unfolding featureTableText_def by (simp add: nan_ops_def Itoa_0)

lemma featureTable_nan:
  "generateFeatureTableJson nan_ops None None None 0 0 =
     Some ''{\"POINTS_LENGTH\":0,\"RTC_CENTER\":[NaN000,NaN,NaN],\"POSITION\":{\"byteOffset\":0},\"RGB\":{\"byteOffset\":0}}''"
proof -
  have "length (featureTableText nan_ops None None None 0 0) = 97"
    unfolding featureTableText_nan by simp
  then have "(4 - length (featureTableText nan_ops None None None 0 0) mod 4) mod 4 = 3"
    by simp
  then have "generateFeatureTableJson nan_ops None None None 0 0
               = Some (featureTableText nan_ops None None None 0 3)"
    using generateFeatureTableJson_padding [of nan_ops None None None 0] by (simp only:)
  then show ?thesis
    unfolding featureTableText_nan by (simp add: numeral_3_eq_3)
qed

lemma batchTableText_0:
  "batchTableText 0 0 = ''{\"INTENSITY\":{\"byteOffset\":0, \"componentType\":\"UNSIGNED_BYTE\", \"type\":\"SCALAR\"},\"CLASSIFICATION\":{\"byteOffset\":0, \"componentType\":\"UNSIGNED_BYTE\", \"type\":\"SCALAR\"}}''"
  unfolding batchTableText_def by (simp add: Itoa_0)

lemma batchTable_0:
  "generateBatchTableJson 0 0 = Some ''{\"INTENSITY\":{\"byteOffset\":0, \"componentType\":\"UNSIGNED_BYTE\", \"type\":\"SCALAR\"},\"CLASSIFICATION\":{\"byteOffset\":0, \"componentType\":\"UNSIGNED_BYTE\", \"type\":\"SCALAR\"}}''"
proof -
  have "length (batchTableText 0 0) mod 4 = 0"
    unfolding batchTableText_0 by simp
  then have "generateBatchTableJson 0 0 = Some (batchTableText 0 0)"
    by (rule generateBatchTableJson_done)
  then show ?thesis unfolding batchTableText_0 .
qed

lemma pntsContent_nan:
  "pntsContent nan_ops env srid [] = Some (Inr no_items_pnts)"
proof -
  have l: "(word_of_nat (length ([] :: real option OctElement list)) :: go_int) = 0" by simp
  have c: "convertItems env srid [] = Inr []" by simp
  have p: "ConvertTruncateFloat64ToFloat32ByteArray nan_ops (normalized nan_ops (None, None, None) []) = []"
    by (simp add: ConvertTruncateFloat64ToFloat32ByteArray_def normalized_def)
  have i: "itemColors ([] :: real option OctElement list) = []"
    "itemIntensities ([] :: real option OctElement list) = []"
    "itemClassifications ([] :: real option OctElement list) = []"
    by (simp_all add: itemColors_def itemIntensities_def itemClassifications_def)
  show ?thesis
    unfolding pntsContent_def Let_def l c
    by (simp only: averages_nan p i featureTable_nan batchTable_0 no_items_pnts_def
        sum.case prod.case option.case)
qed

text \<open>
  C10.  With \<open>float64\<close> read as the reals and NaN: for a node with zero items the three
  averages are the quotient of zero by \<open>float64(0)\<close>, which is NaN, and nothing in the
  computation fails, so \<open>writeBinaryPnts\<close> returns an error only if the folder cannot
  be made or the file cannot be written.  When both succeed it returns \<open>nil\<close> and has
  written a \<open>content.pnts\<close> whose \<open>RTC_CENTER\<close> reads \<open>[NaN000,NaN,NaN]\<close>: three
  times NaN, the first one followed by the padding of the header.
\<close>

theorem writeBinaryPnts_no_items:
  assumes "Items (h (OctNode workUnit)) = []"
  shows "averages nan_ops [] = (None, None, None)
       \<and> Sprintf_f nan_ops None = ''NaN''
       \<and> pntsContent nan_ops env (Srid (Opts workUnit)) (Items (h (OctNode workUnit)))
           = Some (Inr no_items_pnts)
       \<and> writeBinaryPnts nan_ops env h workUnit s =
           (case createBaseFolder env s (BasePath workUnit) of
              (s1, Some err) \<Rightarrow> Some (s1, Some err)
            | (s1, None) \<Rightarrow>
                Some (osWriteFile env s1 (Join env (BasePath workUnit) ''content.pnts'') no_items_pnts))
       \<and> (MkdirAll env (BasePath workUnit) = None
            \<and> WriteFile env (Join env (BasePath workUnit) ''content.pnts'') = None \<longrightarrow>
            (\<exists>s'. writeBinaryPnts nan_ops env h workUnit s = Some (s', None)
                 \<and> files s' (Join env (BasePath workUnit) ''content.pnts'') = Some no_items_pnts))"
proof -
  have c: "pntsContent nan_ops env (Srid (Opts workUnit)) (Items (h (OctNode workUnit)))
             = Some (Inr no_items_pnts)"
    unfolding assms by (rule pntsContent_nan)
  have w: "writeBinaryPnts nan_ops env h workUnit s =
           (case createBaseFolder env s (BasePath workUnit) of
              (s1, Some err) \<Rightarrow> Some (s1, Some err)
            | (s1, None) \<Rightarrow>
                Some (osWriteFile env s1 (Join env (BasePath workUnit) ''content.pnts'') no_items_pnts))"
    unfolding writeBinaryPnts_def Let_def c
    by (simp split: prod.splits option.splits)
  have f: "\<exists>s'. writeBinaryPnts nan_ops env h workUnit s = Some (s', None)
                 \<and> files s' (Join env (BasePath workUnit) ''content.pnts'') = Some no_items_pnts"
    if "MkdirAll env (BasePath workUnit) = None
            \<and> WriteFile env (Join env (BasePath workUnit) ''content.pnts'') = None"
    unfolding w using that
    by (auto simp: createBaseFolder_def osMkdirAll_def osWriteFile_def)
  have n: "Sprintf_f nan_ops None = ''NaN''" by (simp add: nan_ops_def)
  show ?thesis
    using averages_nan n c w f by (intro conjI impI) blast+
qed

theorem writeBinaryPnts_no_items_witness:
  "Items (empty_heap (OctNode empty_unit)) = []
   \<and> MkdirAll nan_env (BasePath empty_unit) = None
   \<and> WriteFile nan_env (Join nan_env (BasePath empty_unit) ''content.pnts'') = None
   \<and> writeBinaryPnts nan_ops nan_env empty_heap empty_unit empty_fs = Some (empty_node_fs, None)
   \<and> files empty_node_fs ''out/3/content.pnts'' = Some no_items_pnts"
proof -
  have a: "Items (empty_heap (OctNode empty_unit)) = []" by (simp add: empty_heap_def)
  have b: "MkdirAll nan_env (BasePath empty_unit) = None" by (simp add: nan_env_def)
  have c: "WriteFile nan_env (Join nan_env (BasePath empty_unit) ''content.pnts'') = None"
    by (simp add: nan_env_def)
  have d: "createBaseFolder nan_env empty_fs (BasePath empty_unit)
             = (\<lparr>dirs = {''out/3''}, files = (\<lambda>p. None)\<rparr>, None)"
    by (simp add: createBaseFolder_def IsNotExist_def osMkdirAll_def empty_fs_def nan_env_def
        empty_unit_def)
  have e: "Join nan_env (BasePath empty_unit) ''content.pnts'' = ''out/3/content.pnts''"
    by (simp add: nan_env_def empty_unit_def)
  from writeBinaryPnts_no_items [where h = empty_heap and workUnit = empty_unit
      and env = nan_env and s = empty_fs, OF a]
  have "writeBinaryPnts nan_ops nan_env empty_heap empty_unit empty_fs =
           (case createBaseFolder nan_env empty_fs (BasePath empty_unit) of
              (s1, Some err) \<Rightarrow> Some (s1, Some err)
            | (s1, None) \<Rightarrow>
                Some (osWriteFile nan_env s1 (Join nan_env (BasePath empty_unit) ''content.pnts'')
                        no_items_pnts))"
    by blast
  then have w: "writeBinaryPnts nan_ops nan_env empty_heap empty_unit empty_fs
                  = Some (empty_node_fs, None)"
    unfolding d e using c by (simp add: osWriteFile_def e empty_node_fs_def)
  have f: "files empty_node_fs ''out/3/content.pnts'' = Some no_items_pnts"
    by (simp add: empty_node_fs_def)
  from a b c w f show ?thesis by (intro conjI)
qed

subsection \<open>The geometric error\<close>

lemma countContained_filter:
  "countContained can box es t = t + int (length (filter (can box) es))"
  by (induction es arbitrary: t) simp_all

lemma parentLoop_nil: "parentLoop env h box None t = Some t"
  by (subst parentLoop.simps) simp

lemma parentLoop_parent:
  "parentLoop env h box (Some p) t =
     parentLoop env h box (Parent (h p)) (countContained (CanContain env) box (Items (h p)) t)"
  by (subst parentLoop.simps) simp

lemma parentLoop_chain:
  assumes "parentChain h parent ps"
  shows "parentLoop env h box parent t =
           Some (t + (\<Sum>p\<leftarrow>ps. int (length (filter (CanContain env box) (Items (h p))))))"
  using assms
proof (induction arbitrary: t rule: parentChain.induct)
  case (1 h)
  show ?case by (simp add: parentLoop_nil)
next
  case (2 h p ps)
  show ?case
    unfolding parentLoop_parent "2.IH" countContained_filter by simp
qed

text \<open>
  C5, as the code has it.  For a node whose parent pointers lead through the ancestors
  \<open>ancestors\<close> to \<open>nil\<close>, \<open>computeGeometricError\<close> returns
  \<open>densityOnlyThisTile - densityAllPoints\<close>, where \<open>T\<close> is the local count of the
  node plus the number of items of its ancestors inside its bounding box, \<open>V\<close> is
  the volume of the box, and the two densities are \<open>V / T\<close> and
  \<open>V / (T + globalChildrenCount - localChildrenCount)\<close> raised to the power
  \<open>0.333\<close> by \<open>math.Pow\<close>: the power \<open>0.333\<close>, not the cube root.
\<close>

theorem computeGeometricError_formula:
  assumes "parentChain h (Parent (h node)) ancestors"
  shows "computeGeometricError ops env h node =
           Some (let T = renderedPoints env h node ancestors;
                     V = GetVolume env (BoundingBox (h node));
                     densityOnlyThisTile = Pow ops (fdiv ops V (of_int64 ops T)) (lit_0_333 ops);
                     densityAllPoints =
                       Pow ops (fdiv ops V (of_int64 ops
                                  (T + GlobalChildrenCount (h node) - LocalChildrenCount (h node))))
                         (lit_0_333 ops)
                 in fsub ops densityOnlyThisTile densityAllPoints)"
  unfolding computeGeometricError_def parentLoop_chain [OF assms] renderedPoints_def Let_def
  by simp

lemma chain_root: "parentChain tree_heap (Parent (tree_heap 0)) []"
  by (simp add: tree_heap_def parentChain.intros)

lemma chain_child: "parentChain tree_heap (Parent (tree_heap 2)) [0]"
proof -
  have "parentChain tree_heap (Some 0) [0]"
    by (rule parentChain.intros(2)) (rule chain_root)
  then show ?thesis by (simp add: tree_heap_def)
qed

lemma chain_grandchild: "parentChain tree_heap (Parent (tree_heap 4)) [2, 0]"
proof -
  have "parentChain tree_heap (Some 2) [2, 0]"
    by (rule parentChain.intros(2)) (rule chain_child)
  then show ?thesis by (simp add: tree_heap_def)
qed

lemma rendered_grandchild: "renderedPoints tree_env tree_heap 4 [2, 0] = 8"
  by (simp add: renderedPoints_def tree_heap_def tree_env_def cube_def point_def NewOctElement_def)

lemma rendered_child: "renderedPoints tree_env tree_heap 2 [0] = 1"
  by (simp add: renderedPoints_def tree_heap_def tree_env_def cube_def point_def NewOctElement_def)

theorem computeGeometricError_formula_witness:
  "parentChain tree_heap (Parent (tree_heap 4)) [2, 0]
   \<and> renderedPoints tree_env tree_heap 4 [2, 0] = 8
   \<and> computeGeometricError real_ops tree_env tree_heap 4 =
       Some (let T = renderedPoints tree_env tree_heap 4 [2, 0];
                 V = GetVolume tree_env (BoundingBox (tree_heap 4));
                 densityOnlyThisTile = Pow real_ops (fdiv real_ops V (of_int64 real_ops T)) (lit_0_333 real_ops);
                 densityAllPoints =
                   Pow real_ops (fdiv real_ops V (of_int64 real_ops
                              (T + GlobalChildrenCount (tree_heap 4) - LocalChildrenCount (tree_heap 4))))
                     (lit_0_333 real_ops)
             in fsub real_ops densityOnlyThisTile densityAllPoints)"
  by (intro conjI chain_grandchild rendered_grandchild
      computeGeometricError_formula [OF chain_grandchild])

lemma cube_root_8: "root 3 (8::real) = 2"
proof -
  have "root 3 ((2::real) ^ 3) = 2" by (rule real_root_power_cancel) simp_all
  then show ?thesis by simp
qed

lemma powr_0333_8: "(8::real) powr (333 / 1000) < 2"
proof -
  have "(8::real) = 2 powr 3" by simp
  then have "(8::real) powr (333 / 1000) = 2 powr (999 / 1000)"
    by (simp only: powr_powr) simp
  also have "\<dots> < 2 powr 1" by (rule powr_less_mono) simp_all
  finally show ?thesis by simp
qed

text \<open>
  The node at address 2: volume 8, one local point, seven more points below it, and no
  item of the root inside its box.  Read in exact arithmetic the code returns
  \<open>8 powr 0.333 - 1\<close>, which is \<open>2 powr 0.999 - 1\<close> and so less than the
  \<open>2 - 1\<close> that cube roots would give; the gap of more than a thousandth is far
  beyond what rounding in \<open>float64\<close> can account for.
\<close>

theorem computeGeometricError_counterexample:
  "GetVolume tree_env (BoundingBox (tree_heap 2)) = 8
   \<and> renderedPoints tree_env tree_heap 2 [0] = 1
   \<and> GlobalChildrenCount (tree_heap 2) - LocalChildrenCount (tree_heap 2) = 7
   \<and> computeGeometricError real_ops tree_env tree_heap 2 = Some (8 powr (333 / 1000) - 1)
   \<and> 8 powr (333 / 1000) - 1 < root 3 (8 / 1) - root 3 (8 / (1 + 7 :: real))"
proof -
  have v: "GetVolume tree_env (BoundingBox (tree_heap 2)) = 8"
    by (simp add: tree_env_def tree_heap_def cube_def)
  have g: "GlobalChildrenCount (tree_heap 2) - LocalChildrenCount (tree_heap 2) = 7"
    by (simp add: tree_heap_def)
  have l: "LocalChildrenCount (tree_heap 2) = 1" "GlobalChildrenCount (tree_heap 2) = 8"
    by (simp_all add: tree_heap_def)
  have "parentLoop tree_env tree_heap (BoundingBox (tree_heap 2)) (Parent (tree_heap 2))
          (LocalChildrenCount (tree_heap 2)) = Some (renderedPoints tree_env tree_heap 2 [0])"
    unfolding parentLoop_chain [OF chain_child] renderedPoints_def by simp
  then have "computeGeometricError real_ops tree_env tree_heap 2
               = Some ((8 / 1) powr (333 / 1000) - (8 / 8) powr (333 / 1000))"
    unfolding computeGeometricError_def Let_def rendered_child v l
    by (simp add: real_ops_def)
  then have c: "computeGeometricError real_ops tree_env tree_heap 2 = Some (8 powr (333 / 1000) - 1)"
    by simp
  have "8 powr (333 / 1000) - 1 < root 3 (8 / 1) - root 3 (8 / (1 + 7 :: real))"
    using powr_0333_8 by (simp add: cube_root_8)
  with v rendered_child g c show ?thesis by blast
qed

subsection \<open>The children of a tileset\<close>

lemma zip_upt_Cons:
  "zip [i ..< i + length (x # xs)] (x # xs) = (i, x) # zip [Suc i ..< Suc i + length xs] xs"
proof -
  have "i < i + length (x # xs)" by simp
  from upt_conv_Cons [OF this]
  have "[i ..< i + length (x # xs)] = i # [Suc i ..< i + length (x # xs)]" .
  moreover have "i + length (x # xs) = Suc i + length xs" by simp
  ultimately have "[i ..< i + length (x # xs)] = i # [Suc i ..< Suc i + length xs]"
    by (simp only:)
  then show ?thesis by (simp only: zip_Cons_Cons)
qed

lemma childrenLoop_urls:
  assumes "childrenLoop ops env h opts i cs = Some (Inr children)"
  shows "map (\<lambda>c. Url (Child_Content c)) children =
           map (childUrl h)
             [(k, child). (k, Some child) \<leftarrow> zip [i ..< i + length cs] cs,
                          0 < GlobalChildrenCount (h child)]"
  using assms
proof (induction cs arbitrary: i children)
  case Nil
  then show ?case by simp
next
  case (Cons c cs)
  show ?case
  proof (cases c)
    case None
    with Cons.prems have "childrenLoop ops env h opts (Suc i) cs = Some (Inr children)" by simp
    from Cons.IH [OF this] show ?thesis
      unfolding zip_upt_Cons None by simp
  next
    case (Some child)
    show ?thesis
    proof (cases "0 < GlobalChildrenCount (h child)")
      case False
      with Cons.prems Some have "childrenLoop ops env h opts (Suc i) cs = Some (Inr children)"
        by simp
      from Cons.IH [OF this] show ?thesis
        unfolding zip_upt_Cons Some using False by simp
    next
      case True
      with Cons.prems Some obtain childJson rest where
        ch: "children = childJson # rest"
        and url: "Url (Child_Content childJson) =
                    Itoa (int i) @ ''/'' @ (if IsLeaf (h child) then ''content.pnts'' else ''tileset.json'')"
        and rest: "childrenLoop ops env h opts (Suc i) cs = Some (Inr rest)"
        by (auto simp: Let_def split: sum.splits option.splits)
      have "Url (Child_Content childJson) = childUrl h (i, child)"
        unfolding url by (simp add: childUrl_def)
      with Cons.IH [OF rest] show ?thesis
        unfolding zip_upt_Cons Some ch using True by simp
    qed
  qed
qed

lemma createTilesetJson_success:
  assumes "createTilesetJson ops env h node opts = Some (Inr jsonData)"
  shows "\<exists>tileset children.
           MarshalIndent env tileset = Inr jsonData
         \<and> Root_Children (Tileset_Root tileset) = children
         \<and> childrenLoop ops env h opts 0 (Children (h node)) = Some (Inr children)"
  using assms unfolding createTilesetJson_def Let_def
  by (auto split: if_splits option.splits sum.splits)

lemma writeBinaryPnts_other_files:
  assumes "writeBinaryPnts ops env h workUnit s = Some (s', err)"
    and "p \<noteq> Join env (BasePath workUnit) ''content.pnts''"
  shows "files s' p = files s p"
  using assms
  unfolding writeBinaryPnts_def createBaseFolder_def osMkdirAll_def osWriteFile_def Let_def
  by (auto split: if_splits option.splits sum.splits prod.splits)

lemma doWork_leaf:
  assumes "IsLeaf (h (OctNode workUnit))"
  shows "doWork ops env h workUnit s = writeBinaryPnts ops env h workUnit s"
  using assms unfolding doWork_def
  by (auto split: option.splits prod.splits)

text \<open>
  C7.  For a node that is not a leaf, a tileset that \<open>createTilesetJson\<close> produces
  lists as children exactly the slots with a non-null child whose
  \<open>GlobalChildrenCount\<close> is positive, in the order of the slots, with the URL
  \<open>i/content.pnts\<close> for a leaf child and \<open>i/tileset.json\<close> otherwise.  For a leaf,
  \<open>createTilesetJson\<close> returns an error, and \<open>doWork\<close> does what
  \<open>writeBinaryPnts\<close> does and no more: no file other than \<open>content.pnts\<close> changes.
\<close>

theorem createTilesetJson_children:
  "(\<not> IsLeaf (h (OctNode workUnit))
      \<and> createTilesetJson ops env h (OctNode workUnit) (Opts workUnit) = Some (Inr jsonData) \<longrightarrow>
      (\<exists>tileset. MarshalIndent env tileset = Inr jsonData
         \<and> map (\<lambda>c. Url (Child_Content c)) (Root_Children (Tileset_Root tileset)) =
             map (childUrl h) (listedSlots h (Children (h (OctNode workUnit))))))
   \<and> (IsLeaf (h (OctNode workUnit)) \<longrightarrow>
        createTilesetJson ops env h (OctNode workUnit) (Opts workUnit) = Some (Inl LeafError)
      \<and> doWork ops env h workUnit s = writeBinaryPnts ops env h workUnit s
      \<and> (doWork ops env h workUnit s = Some (s', err)
           \<and> p \<noteq> Join env (BasePath workUnit) ''content.pnts'' \<longrightarrow> files s' p = files s p))"
proof (intro conjI impI)
  assume "\<not> IsLeaf (h (OctNode workUnit))
      \<and> createTilesetJson ops env h (OctNode workUnit) (Opts workUnit) = Some (Inr jsonData)"
  then obtain tileset where
    m: "MarshalIndent env tileset = Inr jsonData"
    and c: "childrenLoop ops env h (Opts workUnit) 0 (Children (h (OctNode workUnit)))
              = Some (Inr (Root_Children (Tileset_Root tileset)))"
    using createTilesetJson_success by blast
  have "map (\<lambda>c. Url (Child_Content c)) (Root_Children (Tileset_Root tileset)) =
          map (childUrl h) (listedSlots h (Children (h (OctNode workUnit))))"
    using childrenLoop_urls [OF c] by (simp add: listedSlots_def)
  with m show "\<exists>tileset. MarshalIndent env tileset = Inr jsonData
         \<and> map (\<lambda>c. Url (Child_Content c)) (Root_Children (Tileset_Root tileset)) =
             map (childUrl h) (listedSlots h (Children (h (OctNode workUnit))))"
    by blast
next
  assume "IsLeaf (h (OctNode workUnit))"
  then show "createTilesetJson ops env h (OctNode workUnit) (Opts workUnit) = Some (Inl LeafError)"
    by (simp add: createTilesetJson_def)
next
  assume "IsLeaf (h (OctNode workUnit))"
  then show "doWork ops env h workUnit s = writeBinaryPnts ops env h workUnit s"
    by (rule doWork_leaf)
next
  assume l: "IsLeaf (h (OctNode workUnit))"
    and "doWork ops env h workUnit s = Some (s', err)
           \<and> p \<noteq> Join env (BasePath workUnit) ''content.pnts''"
  then have "writeBinaryPnts ops env h workUnit s = Some (s', err)"
    and "p \<noteq> Join env (BasePath workUnit) ''content.pnts''"
    using doWork_leaf [where h = h and workUnit = workUnit and ops = ops and env = env and s = s, OF l]
    by simp_all
  then show "files s' p = files s p" by (rule writeBinaryPnts_other_files)
qed

lemma computeGeometricError_returns:
  assumes "parentChain h (Parent (h node)) ps"
  shows "\<exists>e. computeGeometricError ops env h node = Some e"
  unfolding computeGeometricError_def parentLoop_chain [OF assms] Let_def by simp

lemma chain_leaf: "parentChain tree_heap (Parent (tree_heap 5)) [0]"
proof -
  have "parentChain tree_heap (Some 0) [0]"
    by (rule parentChain.intros(2)) (rule chain_root)
  then show ?thesis by (simp add: tree_heap_def)
qed

lemma tree_region:
  "Convert2DBoundingboxToWGS84Region tree_env b srid =
     Inr [minX b, minY b, maxX b, maxY b, minZ b, maxZ b]"
  by (simp add: tree_env_def)

lemma tree_marshal:
  "MarshalIndent tree_env t =
     Inr (bytesOf (concat (map (\<lambda>c. Url (Child_Content c) @ ''\<newline>'') (Root_Children (Tileset_Root t)))))"
  by (simp add: tree_env_def)

lemma Itoa_7: "Itoa 7 = ''7''" by (simp add: Itoa_def decimalDigit_def)

lemma root_children:
  "\<exists>c1 c2. childrenLoop real_ops tree_env tree_heap \<lparr>Srid = 4326\<rparr> 0 (Children (tree_heap 0))
             = Some (Inr [c1, c2])
           \<and> Url (Child_Content c1) = ''0/content.pnts''
           \<and> Url (Child_Content c2) = ''7/tileset.json''"
proof -
  obtain e1 where e1: "computeGeometricError real_ops tree_env tree_heap 5 = Some e1"
    using computeGeometricError_returns [OF chain_leaf] by blast
  obtain e2 where e2: "computeGeometricError real_ops tree_env tree_heap 2 = Some e2"
    using computeGeometricError_returns [OF chain_child] by blast
  have c: "Children (tree_heap 0) = [Some 5, None, None, Some 3, None, None, None, Some 2]"
    by (simp add: tree_heap_def)
  have g: "0 < GlobalChildrenCount (tree_heap 5)" "\<not> 0 < GlobalChildrenCount (tree_heap 3)"
    "0 < GlobalChildrenCount (tree_heap 2)" "IsLeaf (tree_heap 5)" "\<not> IsLeaf (tree_heap 2)"
    by (simp_all add: tree_heap_def)
  show ?thesis
    unfolding c by (simp add: g e1 e2 tree_region Itoa_0 Itoa_7 Let_def)
qed

lemma root_tileset:
  "createTilesetJson real_ops tree_env tree_heap 0 \<lparr>Srid = 4326\<rparr> = Some (Inr root_json)"
proof -
  obtain e0 where e0: "computeGeometricError real_ops tree_env tree_heap 0 = Some e0"
    using computeGeometricError_returns [OF chain_root] by blast
  obtain c1 c2 where
    cl: "childrenLoop real_ops tree_env tree_heap \<lparr>Srid = 4326\<rparr> 0 (Children (tree_heap 0))
           = Some (Inr [c1, c2])"
    and u: "Url (Child_Content c1) = ''0/content.pnts''" "Url (Child_Content c2) = ''7/tileset.json''"
    using root_children by blast
  have l: "\<not> IsLeaf (tree_heap 0)" by (simp add: tree_heap_def)
  show ?thesis
    unfolding createTilesetJson_def Let_def e0 cl tree_region tree_marshal
    using l by (simp add: u root_json_def)
qed

lemma leaf_written:
  "writeBinaryPnts real_ops tree_env tree_heap leaf_unit empty_fs = Some (leaf_fs, None)"
proof -
  have f: "createBaseFolder tree_env empty_fs ''out/0'' = (\<lparr>dirs = {''out/0''}, files = (\<lambda>p. None)\<rparr>, None)"
    by (simp add: createBaseFolder_def IsNotExist_def osMkdirAll_def empty_fs_def tree_env_def)
  have j: "Join tree_env ''out/0'' ''content.pnts'' = ''out/0/content.pnts''"
    by (simp add: tree_env_def)
  have w: "WriteFile tree_env ''out/0/content.pnts'' = None"
    by (simp add: tree_env_def)
  have u: "BasePath leaf_unit = ''out/0''" "OctNode leaf_unit = 5" "Srid (Opts leaf_unit) = 4326"
    by (simp_all add: leaf_unit_def)
  have i: "Items (tree_heap 5) = [point 1 1 1]" by (simp add: tree_heap_def)
  show ?thesis
    unfolding writeBinaryPnts_def Let_def u f j i one_point_pntsContent
    by (simp add: osWriteFile_def w leaf_fs_def)
qed

lemma leaf_worked:
  "doWork real_ops tree_env tree_heap leaf_unit empty_fs = Some (leaf_fs, None)"
proof -
  have "IsLeaf (tree_heap (OctNode leaf_unit))" by (simp add: leaf_unit_def tree_heap_def)
  from doWork_leaf [where h = tree_heap and workUnit = leaf_unit, OF this] show ?thesis
    by (simp only: leaf_written)
qed

lemma locked_failed:
  "doWork real_ops tree_env tree_heap locked_unit leaf_fs = Some (leaf_fs, Some MkdirError)"
proof -
  have "createBaseFolder tree_env leaf_fs ''locked'' = (leaf_fs, Some MkdirError)"
    by (simp add: createBaseFolder_def IsNotExist_def osMkdirAll_def leaf_fs_def tree_env_def)
  then have "writeBinaryPnts real_ops tree_env tree_heap locked_unit leaf_fs = Some (leaf_fs, Some MkdirError)"
    by (simp add: writeBinaryPnts_def locked_unit_def)
  then show ?thesis by (simp add: doWork_def)
qed

theorem createTilesetJson_children_witness:
  "\<not> IsLeaf (tree_heap (OctNode root_unit))
   \<and> createTilesetJson real_ops tree_env tree_heap (OctNode root_unit) (Opts root_unit) = Some (Inr root_json)
   \<and> (\<exists>tileset. MarshalIndent tree_env tileset = Inr root_json
         \<and> map (\<lambda>c. Url (Child_Content c)) (Root_Children (Tileset_Root tileset)) =
             map (childUrl tree_heap) (listedSlots tree_heap (Children (tree_heap (OctNode root_unit)))))
   \<and> map (childUrl tree_heap) (listedSlots tree_heap (Children (tree_heap (OctNode root_unit))))
       = [''0/content.pnts'', ''7/tileset.json'']
   \<and> IsLeaf (tree_heap (OctNode leaf_unit))
   \<and> createTilesetJson real_ops tree_env tree_heap (OctNode leaf_unit) (Opts leaf_unit) = Some (Inl LeafError)
   \<and> doWork real_ops tree_env tree_heap leaf_unit empty_fs
       = writeBinaryPnts real_ops tree_env tree_heap leaf_unit empty_fs
   \<and> doWork real_ops tree_env tree_heap leaf_unit empty_fs = Some (leaf_fs, None)
   \<and> ''out/0/tileset.json'' \<noteq> Join tree_env (BasePath leaf_unit) ''content.pnts''
   \<and> files leaf_fs ''out/0/tileset.json'' = files empty_fs ''out/0/tileset.json''"
proof -
  have a: "\<not> IsLeaf (tree_heap (OctNode root_unit))"
    by (simp add: root_unit_def tree_heap_def)
  have b: "createTilesetJson real_ops tree_env tree_heap (OctNode root_unit) (Opts root_unit)
             = Some (Inr root_json)"
    using root_tileset by (simp add: root_unit_def)
  have c: "IsLeaf (tree_heap (OctNode leaf_unit))"
    by (simp add: leaf_unit_def tree_heap_def)
  have d: "''out/0/tileset.json'' \<noteq> Join tree_env (BasePath leaf_unit) ''content.pnts''"
    by (simp add: leaf_unit_def tree_env_def)
  have e: "map (childUrl tree_heap) (listedSlots tree_heap (Children (tree_heap (OctNode root_unit))))
       = [''0/content.pnts'', ''7/tileset.json'']"
    by (simp add: root_unit_def listedSlots_def childUrl_def tree_heap_def Itoa_0 Itoa_7 upt_rec)
  note t1 = createTilesetJson_children [where h = tree_heap and workUnit = root_unit
      and ops = real_ops and env = tree_env and jsonData = root_json]
  note t2 = createTilesetJson_children [where h = tree_heap and workUnit = leaf_unit
      and ops = real_ops and env = tree_env and s = empty_fs and s' = leaf_fs and err = None
      and p = "''out/0/tileset.json''"]
  show ?thesis
    using a b c d e leaf_worked t1 t2 by blast
qed

subsection \<open>The worker loop\<close>

lemma Consume_succeeding_prefix:
  assumes "length ss = Suc (length pre)"
    and "ss ! 0 = s"
    and "\<forall>i < length pre. doWork ops env h (pre ! i) (ss ! i) = Some (ss ! Suc i, None)"
  shows "Consume ops env h (pre @ rest) s =
           (case Consume ops env h rest (last ss) of
              None \<Rightarrow> None
            | Some c \<Rightarrow> Some (c\<lparr>worked := pre @ worked c\<rparr>))"
  using assms
proof (induction pre arbitrary: ss s)
  case Nil
  then obtain x where "ss = [x]" by (cases ss) auto
  with Nil show ?case by (simp split: option.splits)
next
  case (Cons w ws)
  then obtain x ss' where ss: "ss = x # ss'" by (cases ss) auto
  with Cons.prems have x: "x = s" and len: "length ss' = Suc (length ws)" by simp_all
  have step: "doWork ops env h w s = Some (ss' ! 0, None)"
    using Cons.prems(3) [rule_format, of 0] ss x by simp
  have rest: "\<forall>i < length ws. doWork ops env h (ws ! i) (ss' ! i) = Some (ss' ! Suc i, None)"
  proof (intro allI impI)
    fix i assume "i < length ws"
    then show "doWork ops env h (ws ! i) (ss' ! i) = Some (ss' ! Suc i, None)"
      using Cons.prems(3) [rule_format, of "Suc i"] ss by simp
  qed
  have l: "last ss = last ss'" using ss len by (cases ss') simp_all
  have "Consume ops env h (ws @ rest) (ss' ! 0) =
           (case Consume ops env h rest (last ss') of
              None \<Rightarrow> None
            | Some c \<Rightarrow> Some (c\<lparr>worked := ws @ worked c\<rparr>))"
    by (rule Cons.IH [OF len refl rest])
  then show ?case
    using step l by (simp split: option.splits)
qed

text \<open>
  C9.  Let the worker receive the work units \<open>pre\<close>, each of which \<open>doWork\<close>
  handles without error, the file system passing through the states \<open>ss\<close>.  If the
  channel is closed then, the worker ends having posted no error.  If instead the next
  unit \<open>work\<close> makes \<open>doWork\<close> return an error, the worker posts exactly this
  error and ends: whatever units \<open>rest\<close> would follow, it has handed only \<open>pre\<close>
  and \<open>work\<close> to \<open>doWork\<close>.
\<close>

theorem Consume_first_error:
  assumes "length ss = Suc (length pre)"
    and "ss ! 0 = s"
    and "\<forall>i < length pre. doWork ops env h (pre ! i) (ss ! i) = Some (ss ! Suc i, None)"
  shows "Consume ops env h pre s = Some \<lparr>left = last ss, posted = [], worked = pre\<rparr>
       \<and> (doWork ops env h work (last ss) = Some (s', Some err) \<longrightarrow>
            Consume ops env h (pre @ work # rest) s =
              Some \<lparr>left = s', posted = [err], worked = pre @ [work]\<rparr>)"
proof (intro conjI impI)
  show "Consume ops env h pre s = Some \<lparr>left = last ss, posted = [], worked = pre\<rparr>"
    using Consume_succeeding_prefix [OF assms, of "[]"] by simp
next
  assume "doWork ops env h work (last ss) = Some (s', Some err)"
  then show "Consume ops env h (pre @ work # rest) s =
               Some \<lparr>left = s', posted = [err], worked = pre @ [work]\<rparr>"
    using Consume_succeeding_prefix [OF assms, of "work # rest"] by simp
qed

theorem Consume_first_error_witness:
  "length [empty_fs, leaf_fs] = Suc (length [leaf_unit])
   \<and> [empty_fs, leaf_fs] ! 0 = empty_fs
   \<and> doWork real_ops tree_env tree_heap leaf_unit empty_fs = Some (leaf_fs, None)
   \<and> doWork real_ops tree_env tree_heap locked_unit leaf_fs = Some (leaf_fs, Some MkdirError)
   \<and> Consume real_ops tree_env tree_heap [leaf_unit] empty_fs
       = Some \<lparr>left = leaf_fs, posted = [], worked = [leaf_unit]\<rparr>
   \<and> Consume real_ops tree_env tree_heap [leaf_unit, locked_unit, root_unit] empty_fs
       = Some \<lparr>left = leaf_fs, posted = [MkdirError], worked = [leaf_unit, locked_unit]\<rparr>"
proof -
  have a: "length [empty_fs, leaf_fs] = Suc (length [leaf_unit])" by simp
  have b: "[empty_fs, leaf_fs] ! 0 = empty_fs" by simp
  have c: "\<forall>i < length [leaf_unit].
             doWork real_ops tree_env tree_heap ([leaf_unit] ! i) ([empty_fs, leaf_fs] ! i)
               = Some ([empty_fs, leaf_fs] ! Suc i, None)"
    using leaf_worked by simp
  from Consume_first_error [OF a b c, of locked_unit leaf_fs MkdirError "[root_unit]"]
  show ?thesis using leaf_worked locked_failed by simp
qed


end
